theory Spec2Isabelle
  imports Complex_Main "HOL-Library.AList" "HOL-Library.Multiset" "HOL-Library.Log_Nat"
begin

section \<open>Data model of \<open>scripts/calculate-snapshots.py\<close>\<close>

text \<open>
  The script replays a ledger of transactions into per-position share counts and cost
  bases, and values the positions on every calendar day with a table of closing prices.

  Python's \<open>float\<close> values are modelled as exact rationals (\<^typ>\<open>rat\<close>): every
  arithmetic operation of the source is the exact operation here, and a decimal literal
  of the source denotes the decimal fraction it spells. Where the rounding of the
  arithmetic decides a property, the ledger is given a second time in double precision
  (the definitions with the prefix \<open>float_\<close>). Dictionaries keep their insertion
  order in Python and the script iterates over \<open>positions.values()\<close>, so the position
  dictionary is an association list in insertion order, with distinct keys.
\<close>

text \<open>A row of the transaction file, as \<open>read_transactions\<close> builds it.\<close>

record transaction =
  tx_date :: string
  tx_fund :: string
  tx_money_source :: string
  tx_activity :: string
  tx_units :: rat
  tx_unit_price :: rat
  tx_amount :: rat

text \<open>A value of the \<open>positions\<close> dictionary.\<close>

record position =
  fund :: string
  account :: string
  shares :: rat
  cost_basis :: rat

type_synonym positions = "(string \<times> position) list"

section \<open>The position ledger (lines 178-204 of \<open>main\<close>)\<close>

text \<open>\<open>key = f"{tx['fund']}||{tx['money_source']}"\<close>\<close>

definition position_key :: "transaction \<Rightarrow> string" where
  "position_key tx = tx_fund tx @ ''||'' @ tx_money_source tx"

text \<open>The dictionary stored under a key that is not yet in \<open>positions\<close>.\<close>

definition new_position :: "transaction \<Rightarrow> position" where
  "new_position tx =
     \<lparr>fund = tx_fund tx, account = tx_money_source tx, shares = 0, cost_basis = 0\<rparr>"

text \<open>
  \<open>avg_cost = pos['cost_basis'] / pos['shares'] if pos['shares'] > 0 else 0\<close> and
  \<open>cost_reduction = avg_cost * min(abs(units), pos['shares'])\<close>.
\<close>

definition avg_cost :: "position \<Rightarrow> rat" where
  "avg_cost pos = (if shares pos > 0 then cost_basis pos / shares pos else 0)"

definition cost_reduction :: "position \<Rightarrow> rat \<Rightarrow> rat" where
  "cost_reduction pos units = avg_cost pos * min \<bar>units\<bar> (shares pos)"

text \<open>
  The update of one position by one transaction (lines 190-204). Both assignments of the
  sell branch read the shares the position had before the transaction.
\<close>

definition update_position :: "position \<Rightarrow> transaction \<Rightarrow> position" where
  "update_position pos tx =
     (let units = tx_units tx; amount = tx_amount tx in
      if units > 0 then
        (let purchase_cost = \<bar>amount\<bar> in
         pos\<lparr>cost_basis := cost_basis pos + purchase_cost, shares := shares pos + units\<rparr>)
      else if units < 0 \<and> shares pos > 0 then
        pos\<lparr>cost_basis := max 0 (cost_basis pos - cost_reduction pos units),
            shares := max 0 (shares pos - \<bar>units\<bar>)\<rparr>
      else pos)"

text \<open>
  One iteration of the loop over a date's transactions: the key is created when it is
  missing, then the position under it is updated in place.
\<close>

definition process_tx :: "positions \<Rightarrow> transaction \<Rightarrow> positions" where
  "process_tx ps tx =
     (let key = position_key tx;
          ps1 = (if key \<notin> fst ` set ps then ps @ [(key, new_position tx)] else ps)
      in case map_of ps1 key of
           Some pos \<Rightarrow> AList.update key (update_position pos tx) ps1
         | None \<Rightarrow> ps1)"

text \<open>The transactions applied so far, in the order of their application.\<close>

definition replay :: "transaction list \<Rightarrow> positions" where
  "replay txs = foldl process_tx [] txs"

section \<open>The price oracle (lines 11-123)\<close>

text \<open>
  The two dictionary literals, as association lists. No key occurs twice in either literal,
  so \<^const>\<open>map_of\<close> is the dictionary's \<open>get\<close>.
\<close>

definition HISTORICAL_PRICES :: "(string \<times> (string \<times> rat) list) list" where
  "HISTORICAL_PRICES =
    [
     (''VTI'',
      [
       (''2025-09-02'', 315.99), (''2025-09-03'', 317.33), (''2025-09-04'', 320.14),
       (''2025-09-05'', 319.55), (''2025-09-08'', 320.57), (''2025-09-09'', 320.98),
       (''2025-09-10'', 321.80), (''2025-09-11'', 324.78), (''2025-09-12'', 324.31),
       (''2025-09-15'', 325.89), (''2025-09-16'', 325.45), (''2025-09-17'', 325.16),
       (''2025-09-18'', 327.21), (''2025-09-19'', 328.44), (''2025-09-22'', 329.86),
       (''2025-09-23'', 328.09), (''2025-09-24'', 326.89), (''2025-09-25'', 325.14),
       (''2025-09-26'', 327.18), (''2025-09-29'', 327.10), (''2025-09-30'', 328.17),
       (''2025-10-01'', 329.31), (''2025-10-02'', 329.79), (''2025-10-03'', 329.97),
       (''2025-10-06'', 331.21), (''2025-10-07'', 329.62), (''2025-10-08'', 331.81),
       (''2025-10-09'', 330.66), (''2025-10-10'', 321.80), (''2025-10-13'', 326.93),
       (''2025-10-14'', 326.83), (''2025-10-15'', 328.38), (''2025-10-16'', 325.77),
       (''2025-10-17'', 327.30), (''2025-10-20'', 330.95), (''2025-10-21'', 330.91),
       (''2025-10-22'', 328.90), (''2025-10-23'', 331.01), (''2025-10-24'', 333.71),
       (''2025-10-27'', 337.43), (''2025-10-28'', 338.51)
      ]),
     (''QQQM'',
      [
       (''2025-09-02'', 232.85), (''2025-09-03'', 234.63), (''2025-09-04'', 236.79),
       (''2025-09-05'', 237.15), (''2025-09-08'', 238.28), (''2025-09-09'', 238.99),
       (''2025-09-10'', 239.06), (''2025-09-11'', 240.46), (''2025-09-12'', 241.50),
       (''2025-09-15'', 243.60), (''2025-09-16'', 243.38), (''2025-09-17'', 242.89),
       (''2025-09-18'', 245.12), (''2025-09-19'', 246.79), (''2025-09-22'', 247.90),
       (''2025-09-23'', 246.25), (''2025-09-24'', 245.39), (''2025-09-25'', 244.33),
       (''2025-09-26'', 245.37), (''2025-09-29'', 246.48), (''2025-09-30'', 247.12),
       (''2025-10-01'', 248.33), (''2025-10-02'', 249.33), (''2025-10-03'', 248.32),
       (''2025-10-06'', 250.17), (''2025-10-07'', 248.85), (''2025-10-08'', 251.71),
       (''2025-10-09'', 251.41), (''2025-10-10'', 242.67), (''2025-10-13'', 247.83),
       (''2025-10-14'', 246.21), (''2025-10-15'', 247.88), (''2025-10-16'', 247.00),
       (''2025-10-17'', 248.61), (''2025-10-20'', 251.76), (''2025-10-21'', 251.69),
       (''2025-10-22'', 249.26), (''2025-10-23'', 251.39), (''2025-10-24'', 254.02),
       (''2025-10-27'', 258.58), (''2025-10-28'', 261.02)
      ]),
     (''SCHD'',
      [
       (''2025-09-02'', 27.84), (''2025-09-03'', 27.60), (''2025-09-04'', 27.69),
       (''2025-09-05'', 27.64), (''2025-09-08'', 27.44), (''2025-09-09'', 27.45),
       (''2025-09-10'', 27.50), (''2025-09-11'', 27.72), (''2025-09-12'', 27.48),
       (''2025-09-15'', 27.34), (''2025-09-16'', 27.42), (''2025-09-17'', 27.47),
       (''2025-09-18'', 27.45), (''2025-09-19'', 27.33), (''2025-09-22'', 27.25),
       (''2025-09-23'', 27.40), (''2025-09-24'', 27.16), (''2025-09-25'', 26.99),
       (''2025-09-26'', 27.21), (''2025-09-29'', 27.10), (''2025-09-30'', 27.30),
       (''2025-10-01'', 27.53), (''2025-10-02'', 27.34), (''2025-10-03'', 27.41),
       (''2025-10-06'', 27.34), (''2025-10-07'', 27.28), (''2025-10-08'', 27.18),
       (''2025-10-09'', 27.00), (''2025-10-10'', 26.54), (''2025-10-13'', 26.63),
       (''2025-10-14'', 26.87), (''2025-10-15'', 26.78), (''2025-10-16'', 26.57),
       (''2025-10-17'', 26.79), (''2025-10-20'', 26.99), (''2025-10-21'', 27.07),
       (''2025-10-22'', 26.99), (''2025-10-23'', 27.03), (''2025-10-24'', 27.03),
       (''2025-10-27'', 27.12), (''2025-10-28'', 27.03)
      ]),
     (''DES'',
      [
       (''2025-09-02'', 33.82), (''2025-09-03'', 33.89), (''2025-09-04'', 34.36),
       (''2025-09-05'', 34.38), (''2025-09-08'', 34.28), (''2025-09-09'', 33.91),
       (''2025-09-10'', 33.86), (''2025-09-11'', 34.49), (''2025-09-12'', 34.07),
       (''2025-09-15'', 34.07), (''2025-09-16'', 33.97), (''2025-09-17'', 33.98),
       (''2025-09-18'', 34.54), (''2025-09-19'', 34.03), (''2025-09-22'', 34.02),
       (''2025-09-23'', 34.08), (''2025-09-24'', 33.90), (''2025-09-25'', 33.57),
       (''2025-09-26'', 33.84), (''2025-09-29'', 33.65), (''2025-09-30'', 33.68),
       (''2025-10-01'', 33.70), (''2025-10-02'', 33.61), (''2025-10-03'', 33.79),
       (''2025-10-06'', 33.75), (''2025-10-07'', 33.49), (''2025-10-08'', 33.52),
       (''2025-10-09'', 33.19), (''2025-10-10'', 32.32), (''2025-10-13'', 32.91),
       (''2025-10-14'', 33.55), (''2025-10-15'', 33.50), (''2025-10-16'', 32.92),
       (''2025-10-17'', 33.03), (''2025-10-20'', 33.55), (''2025-10-21'', 33.53),
       (''2025-10-22'', 33.53), (''2025-10-23'', 33.64), (''2025-10-24'', 33.89),
       (''2025-10-27'', 33.74), (''2025-10-28'', 33.44)
      ]),
     (''VOO'',
      [
       (''2025-09-02'', 588.71), (''2025-09-03'', 591.72), (''2025-09-04'', 596.59),
       (''2025-09-05'', 594.96), (''2025-09-08'', 596.50), (''2025-09-09'', 597.95),
       (''2025-09-10'', 599.68), (''2025-09-11'', 604.57), (''2025-09-12'', 604.44),
       (''2025-09-15'', 607.59), (''2025-09-16'', 606.79), (''2025-09-17'', 606.09),
       (''2025-09-18'', 608.94), (''2025-09-19'', 611.78), (''2025-09-22'', 614.76),
       (''2025-09-23'', 611.54), (''2025-09-24'', 609.50), (''2025-09-25'', 606.59),
       (''2025-09-26'', 610.16), (''2025-09-29'', 610.13), (''2025-09-30'', 612.38),
       (''2025-10-01'', 614.57), (''2025-10-02'', 615.25), (''2025-10-03'', 615.30),
       (''2025-10-06'', 617.40), (''2025-10-07'', 615.20), (''2025-10-08'', 618.77),
       (''2025-10-09'', 617.10), (''2025-10-10'', 600.51), (''2025-10-13'', 609.61),
       (''2025-10-14'', 608.75), (''2025-10-15'', 611.43), (''2025-10-16'', 607.39),
       (''2025-10-17'', 610.76), (''2025-10-20'', 617.17), (''2025-10-21'', 617.09),
       (''2025-10-22'', 613.97), (''2025-10-23'', 617.44), (''2025-10-24'', 622.55),
       (''2025-10-27'', 630.00), (''2025-10-28'', 632.72)
      ])
    ]"

definition FUND_TICKER_MAP :: "(string \<times> string) list" where
  "FUND_TICKER_MAP =
    [(''VTI'', ''VTI''),
     (''QQQM'', ''QQQM''),
     (''SCHD'', ''SCHD''),
     (''DES'', ''DES''),
     (''0899 Vanguard 500 Index Fund Adm'', ''VOO'')]"

definition VOYA_CONVERSION_RATIO :: rat where
  "VOYA_CONVERSION_RATIO = 15.577"

text \<open>\<open>HISTORICAL_PRICES.get(ticker, {}).get(date_str)\<close>\<close>

definition table_price :: "string \<Rightarrow> string \<Rightarrow> rat option" where
  "table_price ticker date_str =
     map_of (case map_of HISTORICAL_PRICES ticker of None \<Rightarrow> [] | Some t \<Rightarrow> t) date_str"

text \<open>
  \<open>get_closing_price\<close>: \<open>None\<close> is Python's \<open>None\<close>. The test \<open>not ticker\<close> holds for
  a missing name and for an empty ticker. The two warnings go to the standard error stream
  and are not part of the result.
\<close>

definition get_closing_price :: "string \<Rightarrow> string \<Rightarrow> rat option" where
  "get_closing_price fund_name date_str =
     (case map_of FUND_TICKER_MAP fund_name of
        None \<Rightarrow> None
      | Some ticker \<Rightarrow>
          if ticker = [] then None
          else (case table_price ticker date_str of
                  None \<Rightarrow> None
                | Some price \<Rightarrow>
                    Some (if fund_name = ''0899 Vanguard 500 Index Fund Adm''
                          then price / VOYA_CONVERSION_RATIO else price)))"

section \<open>Valuation of one date (lines 206-256)\<close>

text \<open>A row of \<open>holdings_snapshots\<close> and a row of \<open>portfolio_snapshots\<close>.\<close>

record holding =
  h_snapshot_date :: string
  h_fund :: string
  h_account_name :: string
  h_shares :: rat
  h_unit_price :: rat
  h_market_value :: rat
  h_cost_basis :: rat
  h_gain_loss :: rat
  h_price_source :: string

record portfolio =
  p_snapshot_date :: string
  total_market_value :: rat
  total_cost_basis :: rat
  total_gain_loss :: rat
  total_gain_loss_percent :: rat
  snapshot_source :: string
  market_status :: string

text \<open>
  Python's \<open>round(x, ndigits)\<close> in exact arithmetic: the nearest multiple of
  \<open>10\<^sup>-\<^sup>n\<close>, a tie going to the even multiple.
\<close>

definition round_half_even :: "rat \<Rightarrow> int" where
  "round_half_even x =
     (let f = \<lfloor>x\<rfloor>; r = x - of_int f in
      if r < 1 / 2 then f else if 1 / 2 < r then f + 1 else if even f then f else f + 1)"

definition py_round :: "rat \<Rightarrow> nat \<Rightarrow> rat" where
  "py_round x ndigits = of_int (round_half_even (x * 10 ^ ndigits)) / 10 ^ ndigits"

text \<open>The row appended to \<open>holdings\<close> for a position with a price (lines 223-239).\<close>

definition make_holding :: "string \<Rightarrow> position \<Rightarrow> rat \<Rightarrow> holding" where
  "make_holding date pos closing_price =
     (let market_value = shares pos * closing_price;
          gain_loss = market_value - cost_basis pos
      in \<lparr>h_snapshot_date = date,
          h_fund = fund pos,
          h_account_name = account pos,
          h_shares = shares pos,
          h_unit_price = closing_price,
          h_market_value = market_value,
          h_cost_basis = cost_basis pos,
          h_gain_loss = gain_loss,
          h_price_source = ''historical''\<rparr>)"

text \<open>
  The loop over \<open>positions.values()\<close> (lines 211-239), with its three accumulators
  \<open>holdings\<close>, \<open>total_market_value\<close> and \<open>total_cost_basis\<close>.
\<close>

fun value_positions ::
  "string \<Rightarrow> positions \<Rightarrow> holding list \<Rightarrow> rat \<Rightarrow> rat \<Rightarrow> holding list \<times> rat \<times> rat" where
  "value_positions date [] holdings tmv tcb = (holdings, tmv, tcb)"
| "value_positions date ((key, pos) # rest) holdings tmv tcb =
     (if \<bar>shares pos\<bar> < 0.0001 then value_positions date rest holdings tmv tcb
      else
        (case get_closing_price (fund pos) date of
           None \<Rightarrow> value_positions date rest holdings tmv tcb
         | Some closing_price \<Rightarrow>
             value_positions date rest
               (holdings @ [make_holding date pos closing_price])
               (tmv + shares pos * closing_price) (tcb + cost_basis pos)))"

text \<open>The row appended to \<open>portfolio_snapshots\<close> (lines 243-254).\<close>

definition make_portfolio :: "string \<Rightarrow> rat \<Rightarrow> rat \<Rightarrow> portfolio" where
  "make_portfolio date tmv tcb =
     (let total_gain_loss = tmv - tcb;
          total_gain_loss_pct = (if tcb > 0 then total_gain_loss / tcb * 100 else 0)
      in \<lparr>p_snapshot_date = date,
          total_market_value = py_round tmv 2,
          total_cost_basis = py_round tcb 2,
          total_gain_loss = py_round total_gain_loss 2,
          total_gain_loss_percent = py_round total_gain_loss_pct 4,
          snapshot_source = ''backfill'',
          market_status = ''closed''\<rparr>)"

text \<open>The state of the run: the position dictionary and the two output lists.\<close>

record run_state =
  positions :: positions
  portfolio_snapshots :: "portfolio list"
  holdings_snapshots :: "holding list"

text \<open>\<open>tx_by_date[date]\<close>: the transactions of a date, in the order of the file.\<close>

definition tx_by_date :: "transaction list \<Rightarrow> string \<Rightarrow> transaction list" where
  "tx_by_date transactions date = filter (\<lambda>tx. tx_date tx = date) transactions"

text \<open>One iteration of \<open>for date in all_dates\<close> (lines 176-256).\<close>

definition process_date :: "transaction list \<Rightarrow> run_state \<Rightarrow> string \<Rightarrow> run_state" where
  "process_date transactions st date =
     (let ps = foldl process_tx (positions st) (tx_by_date transactions date) in
      case value_positions date ps [] 0 0 of
        (holdings, tmv, tcb) \<Rightarrow>
          if holdings \<noteq> [] then
            \<lparr>positions = ps,
             portfolio_snapshots = portfolio_snapshots st @ [make_portfolio date tmv tcb],
             holdings_snapshots = holdings_snapshots st @ holdings\<rparr>
          else st\<lparr>positions := ps\<rparr>)"

definition generate_snapshots :: "transaction list \<Rightarrow> string list \<Rightarrow> run_state" where
  "generate_snapshots transactions dates =
     foldl (process_date transactions)
       \<lparr>positions = [], portfolio_snapshots = [], holdings_snapshots = []\<rparr> dates"

section \<open>The range of dates (lines 153-166)\<close>

text \<open>
  A \<open>datetime\<close> at midnight is its civil date (year, month, day). Adding
  \<open>timedelta(days=1)\<close> moves to the next civil date of the Gregorian calendar, and
  \<open>strftime('%Y-%m-%d')\<close> writes the year with four digits and month and day with two
  (a year before 1000 is written with leading zeros here; the run ends in 2025).
\<close>

type_synonym datetime = "nat \<times> nat \<times> nat"

definition is_leap :: "nat \<Rightarrow> bool" where
  "is_leap y \<longleftrightarrow> y mod 4 = 0 \<and> (y mod 100 \<noteq> 0 \<or> y mod 400 = 0)"

definition days_in_month :: "nat \<Rightarrow> nat \<Rightarrow> nat" where
  "days_in_month y m =
     (if m = 2 then (if is_leap y then 29 else 28)
      else if m = 4 \<or> m = 6 \<or> m = 9 \<or> m = 11 then 30 else 31)"

fun add_one_day :: "datetime \<Rightarrow> datetime" where
  "add_one_day (y, m, d) =
     (if d < days_in_month y m then (y, m, d + 1)
      else if m < 12 then (y, m + 1, 1)
      else (y + 1, 1, 1))"

fun datetime_le :: "datetime \<Rightarrow> datetime \<Rightarrow> bool" where
  "datetime_le (y1, m1, d1) (y2, m2, d2) \<longleftrightarrow>
     y1 < y2 \<or> (y1 = y2 \<and> (m1 < m2 \<or> (m1 = m2 \<and> d1 \<le> d2)))"

definition digit :: "nat \<Rightarrow> char" where
  "digit n = ''0123456789'' ! (n mod 10)"

definition digits2 :: "nat \<Rightarrow> string" where
  "digits2 n = [digit (n div 10), digit n]"

definition digits4 :: "nat \<Rightarrow> string" where
  "digits4 n = [digit (n div 1000), digit (n div 100), digit (n div 10), digit n]"

fun strftime :: "datetime \<Rightarrow> string" where
  "strftime (y, m, d) = digits4 y @ ''-'' @ digits2 m @ ''-'' @ digits2 d"

text \<open>
  \<open>while current <= end_date: all_dates.append(current.strftime('%Y-%m-%d'));
  current += timedelta(days=1)\<close>
\<close>

function all_dates_loop :: "datetime \<Rightarrow> datetime \<Rightarrow> string list \<Rightarrow> string list" where
  "all_dates_loop current end_date all_dates =
     (if datetime_le current end_date
      then all_dates_loop (add_one_day current) end_date (all_dates @ [strftime current])
      else all_dates)"
  by pat_completeness auto
termination
proof (relation "inv_image (less_than <*lex*> less_than <*lex*> less_than)
    (\<lambda>(c, e, acc). case (c, e) of ((y, m, d), (ye, me, de)) \<Rightarrow> (Suc ye - y, 13 - m, 32 - d))")
  show "wf (inv_image (less_than <*lex*> less_than <*lex*> less_than)
    (\<lambda>(c, e, acc). case (c, e) of ((y, m, d), (ye, me, de)) \<Rightarrow> (Suc ye - y, 13 - m, 32 - d)))"
    by (intro wf_inv_image wf_lex_prod wf_less_than)
next
  fix current end_date :: datetime and all_dates :: "string list"
  assume le: "datetime_le current end_date"
  obtain y m d where c: "current = (y, m, d)"
    by (cases current)
  obtain ye me de where e: "end_date = (ye, me, de)"
    by (cases end_date)
  have "days_in_month y m \<le> 31"
    by (simp add: days_in_month_def)
  moreover have "y \<le> ye"
    using le by (auto simp add: c e)
  ultimately show "((add_one_day current, end_date, all_dates @ [strftime current]),
                    (current, end_date, all_dates))
    \<in> inv_image (less_than <*lex*> less_than <*lex*> less_than)
        (\<lambda>(c, e, acc). case (c, e) of ((y, m, d), (ye, me, de)) \<Rightarrow> (Suc ye - y, 13 - m, 32 - d))"
    by (auto simp add: c e)
qed

declare all_dates_loop.simps [simp del]

text \<open>\<open>end_date = datetime.strptime('2025-10-28', '%Y-%m-%d')\<close>\<close>

definition end_date :: datetime where
  "end_date = (2025, 10, 28)"

text \<open>
  The run from the loading of the transactions to the two output lists. The parameter
  \<open>start_date\<close> is the \<open>datetime\<close> that \<open>strptime\<close> returns for the smallest date
  string of the transactions.
\<close>

definition main_loop :: "transaction list \<Rightarrow> datetime \<Rightarrow> run_state" where
  "main_loop transactions start_date =
     generate_snapshots transactions (all_dates_loop start_date end_date [])"

section \<open>The position ledger in double precision (lines 178-204 of \<open>main\<close>)\<close>

text \<open>
  A Python \<open>float\<close> is an IEEE 754 binary64 value: a finite double is the rational it
  denotes, beside the two infinities and NaN. The two zeros are one value here: the ledger
  compares, adds, subtracts, multiplies and takes absolute values, minima and maxima, and
  divides only by shares greater than zero, and none of these tells the zeros apart.
\<close>

datatype double = Finite rat | PlusInf | MinusInf | NaN

text \<open>The exponent of a positive rational \<open>x\<close>: the \<open>e\<close> with \<open>2\<^sup>e \<le> x < 2\<^sup>e\<^sup>+\<^sup>1\<close>.\<close>

definition floor_log2 :: "rat \<Rightarrow> int" where
  "floor_log2 x =
     (let e = bitlen (fst (quotient_of x)) - bitlen (snd (quotient_of x))
      in if 2 powi e \<le> x then e else e - 1)"

text \<open>
  Rounding to the nearest double, a tie going to the even significand: 53 significant
  bits, the unit in the last place never below \<open>2\<^sup>-\<^sup>1\<^sup>0\<^sup>7\<^sup>4\<close>, and an infinity when the rounded
  value has an exponent above 1023. \<open>float(row['units'])\<close> is this rounding of the decimal
  number in the file, and every arithmetic operation on finite doubles is this rounding
  of the exact result.
\<close>

definition round_double :: "rat \<Rightarrow> double" where
  "round_double x =
     (if x = 0 then Finite 0
      else
        (let ulp = 2 powi (max (floor_log2 \<bar>x\<bar> - 52) (- 1074));
             r = of_int (round_half_even (x / ulp)) * ulp
         in if r \<noteq> 0 \<and> 1024 \<le> floor_log2 \<bar>r\<bar>
            then (if 0 < x then PlusInf else MinusInf) else Finite r))"

text \<open>The comparisons \<open><\<close> and \<open>>\<close>; a comparison with NaN is false.\<close>

fun float_lt :: "double \<Rightarrow> double \<Rightarrow> bool" where
  "float_lt NaN b = False"
| "float_lt a NaN = False"
| "float_lt (Finite x) (Finite y) = (x < y)"
| "float_lt a MinusInf = False"
| "float_lt MinusInf b = True"
| "float_lt PlusInf b = False"
| "float_lt a PlusInf = True"

definition float_gt :: "double \<Rightarrow> double \<Rightarrow> bool" where
  "float_gt a b = float_lt b a"

text \<open>Negation, \<open>abs\<close>, \<open>+\<close>, \<open>-\<close> and \<open>*\<close>.\<close>

fun float_neg :: "double \<Rightarrow> double" where
  "float_neg (Finite x) = Finite (- x)"
| "float_neg PlusInf = MinusInf"
| "float_neg MinusInf = PlusInf"
| "float_neg NaN = NaN"

fun float_abs :: "double \<Rightarrow> double" where
  "float_abs (Finite x) = Finite \<bar>x\<bar>"
| "float_abs PlusInf = PlusInf"
| "float_abs MinusInf = PlusInf"
| "float_abs NaN = NaN"

fun float_add :: "double \<Rightarrow> double \<Rightarrow> double" where
  "float_add NaN b = NaN"
| "float_add a NaN = NaN"
| "float_add (Finite x) (Finite y) = round_double (x + y)"
| "float_add PlusInf MinusInf = NaN"
| "float_add MinusInf PlusInf = NaN"
| "float_add PlusInf b = PlusInf"
| "float_add MinusInf b = MinusInf"
| "float_add a PlusInf = PlusInf"
| "float_add a MinusInf = MinusInf"

definition float_sub :: "double \<Rightarrow> double \<Rightarrow> double" where
  "float_sub a b = float_add a (float_neg b)"

text \<open>The sign of a double that is not NaN.\<close>

fun negative :: "double \<Rightarrow> bool" where
  "negative (Finite x) = (x < 0)"
| "negative MinusInf = True"
| "negative PlusInf = False"
| "negative NaN = False"

fun float_mul :: "double \<Rightarrow> double \<Rightarrow> double" where
  "float_mul NaN b = NaN"
| "float_mul a NaN = NaN"
| "float_mul (Finite x) (Finite y) = round_double (x * y)"
| "float_mul a b =
     (if a = Finite 0 \<or> b = Finite 0 then NaN
      else if negative a \<noteq> negative b then MinusInf else PlusInf)"

text \<open>
  The division \<open>/\<close>: Python raises \<open>ZeroDivisionError\<close> for a divisor that is zero, which
  is the result \<open>None\<close>.
\<close>

fun float_truediv :: "double \<Rightarrow> double \<Rightarrow> double option" where
  "float_truediv a (Finite y) =
     (if y = 0 then None
      else Some (case a of
                   Finite x \<Rightarrow> round_double (x / y)
                 | PlusInf \<Rightarrow> if y < 0 then MinusInf else PlusInf
                 | MinusInf \<Rightarrow> if y < 0 then PlusInf else MinusInf
                 | NaN \<Rightarrow> NaN))"
| "float_truediv (Finite x) PlusInf = Some (Finite 0)"
| "float_truediv (Finite x) MinusInf = Some (Finite 0)"
| "float_truediv a b = Some NaN"

text \<open>
  \<open>min(a, b)\<close> and \<open>max(a, b)\<close> keep the first argument unless the second is smaller
  (greater).
\<close>

definition py_min :: "double \<Rightarrow> double \<Rightarrow> double" where
  "py_min a b = (if float_lt b a then b else a)"

definition py_max :: "double \<Rightarrow> double \<Rightarrow> double" where
  "py_max a b = (if float_gt b a then b else a)"

text \<open>The rows of the transaction file and the positions, with doubles.\<close>

record float_transaction =
  ftx_date :: string
  ftx_fund :: string
  ftx_money_source :: string
  ftx_activity :: string
  ftx_units :: double
  ftx_unit_price :: double
  ftx_amount :: double

record float_position =
  ffund :: string
  faccount :: string
  fshares :: double
  fcost_basis :: double

type_synonym float_positions = "(string \<times> float_position) list"

definition float_position_key :: "float_transaction \<Rightarrow> string" where
  "float_position_key tx = ftx_fund tx @ ''||'' @ ftx_money_source tx"

definition float_new_position :: "float_transaction \<Rightarrow> float_position" where
  "float_new_position tx =
     \<lparr>ffund = ftx_fund tx, faccount = ftx_money_source tx,
      fshares = Finite 0, fcost_basis = Finite 0\<rparr>"

text \<open>
  \<open>avg_cost = pos['cost_basis'] / pos['shares'] if pos['shares'] > 0 else 0\<close>: under the
  test the divisor is not zero and the division does not raise.
\<close>

definition float_avg_cost :: "float_position \<Rightarrow> double" where
  "float_avg_cost pos =
     (if float_gt (fshares pos) (Finite 0)
      then (case float_truediv (fcost_basis pos) (fshares pos) of Some q \<Rightarrow> q | None \<Rightarrow> NaN)
      else Finite 0)"

definition float_cost_reduction :: "float_position \<Rightarrow> double \<Rightarrow> double" where
  "float_cost_reduction pos units =
     float_mul (float_avg_cost pos) (py_min (float_abs units) (fshares pos))"

text \<open>The update of one position by one transaction (lines 190-204).\<close>

definition float_update_position :: "float_position \<Rightarrow> float_transaction \<Rightarrow> float_position" where
  "float_update_position pos tx =
     (let units = ftx_units tx; amount = ftx_amount tx in
      if float_gt units (Finite 0) then
        (let purchase_cost = float_abs amount in
         pos\<lparr>fcost_basis := float_add (fcost_basis pos) purchase_cost,
             fshares := float_add (fshares pos) units\<rparr>)
      else if float_lt units (Finite 0) \<and> float_gt (fshares pos) (Finite 0) then
        pos\<lparr>fcost_basis :=
              py_max (Finite 0) (float_sub (fcost_basis pos) (float_cost_reduction pos units)),
            fshares := py_max (Finite 0) (float_sub (fshares pos) (float_abs units))\<rparr>
      else pos)"

definition float_process_tx :: "float_positions \<Rightarrow> float_transaction \<Rightarrow> float_positions" where
  "float_process_tx ps tx =
     (let key = float_position_key tx;
          ps1 = (if key \<notin> fst ` set ps then ps @ [(key, float_new_position tx)] else ps)
      in case map_of ps1 key of
           Some pos \<Rightarrow> AList.update key (float_update_position pos tx) ps1
         | None \<Rightarrow> ps1)"

definition float_replay :: "float_transaction list \<Rightarrow> float_positions" where
  "float_replay txs = foldl float_process_tx [] txs"

section \<open>Auxiliary notions of the proofs\<close>

text \<open>
  The invariant of a position: neither field is negative, and a position without shares
  has no cost basis left.
\<close>

definition position_ok :: "position \<Rightarrow> bool" where
  "position_ok p \<longleftrightarrow> 0 \<le> shares p \<and> 0 \<le> cost_basis p \<and> (shares p = 0 \<longrightarrow> cost_basis p = 0)"

text \<open>The rows that the valuation loop appends for a date, without the accumulators.\<close>

fun day_holdings :: "string \<Rightarrow> positions \<Rightarrow> holding list" where
  "day_holdings date [] = []"
| "day_holdings date ((key, pos) # rest) =
     (if \<bar>shares pos\<bar> < 0.0001 then day_holdings date rest
      else
        (case get_closing_price (fund pos) date of
           None \<Rightarrow> day_holdings date rest
         | Some closing_price \<Rightarrow> make_holding date pos closing_price # day_holdings date rest))"

text \<open>The rows of \<open>holdings_snapshots\<close> with a given date.\<close>

definition holdings_on :: "run_state \<Rightarrow> string \<Rightarrow> holding list" where
  "holdings_on st date = filter (\<lambda>h. h_snapshot_date h = date) (holdings_snapshots st)"

text \<open>The rows of \<open>portfolio_snapshots\<close> with a given date.\<close>

definition portfolios_on :: "run_state \<Rightarrow> string \<Rightarrow> portfolio list" where
  "portfolios_on st date = filter (\<lambda>ps. p_snapshot_date ps = date) (portfolio_snapshots st)"

text \<open>A \<open>datetime\<close> object holds a date of the calendar, with a year of at most four digits.\<close>

fun valid_datetime :: "datetime \<Rightarrow> bool" where
  "valid_datetime (y, m, d) \<longleftrightarrow>
     1 \<le> y \<and> y \<le> 9999 \<and> 1 \<le> m \<and> m \<le> 12 \<and> 1 \<le> d \<and> d \<le> days_in_month y m"

text \<open>Month and day within the range of two digits.\<close>

fun small_datetime :: "datetime \<Rightarrow> bool" where
  "small_datetime (y, m, d) \<longleftrightarrow> m \<le> 12 \<and> d \<le> 31"

text \<open>
  The invariant of the run after the dates \<open>D\<close>: the positions are well formed, every
  holding row has a date of \<open>D\<close>, a cost basis that is not negative and exactly one
  portfolio row of its date, and every portfolio row has a date of \<open>D\<close> and is built from
  the holding rows of its date, of which there is at least one.
\<close>

definition run_inv :: "string set \<Rightarrow> run_state \<Rightarrow> bool" where
  "run_inv D st \<longleftrightarrow>
     (\<forall>(k, p) \<in> set (positions st). position_ok p) \<and>
     (\<forall>h \<in> set (holdings_snapshots st).
        h_snapshot_date h \<in> D \<and> 0 \<le> h_cost_basis h \<and>
        length (portfolios_on st (h_snapshot_date h)) = 1) \<and>
     (\<forall>ps \<in> set (portfolio_snapshots st).
        p_snapshot_date ps \<in> D \<and> holdings_on st (p_snapshot_date ps) \<noteq> [] \<and>
        ps = make_portfolio (p_snapshot_date ps)
               (sum_list (map h_market_value (holdings_on st (p_snapshot_date ps))))
               (sum_list (map h_cost_basis (holdings_on st (p_snapshot_date ps)))))"

section \<open>Properties of the ledger\<close>

lemma process_tx_eq:
  "process_tx ps tx =
     AList.update (position_key tx)
       (update_position
          (case map_of ps (position_key tx) of None \<Rightarrow> new_position tx | Some p \<Rightarrow> p) tx) ps"
proof (cases "map_of ps (position_key tx)")
  case None
  then have notin: "position_key tx \<notin> fst ` set ps"
    by (simp add: map_of_eq_None_iff)
  have upd: "AList.update k v (qs @ [(k, w)]) = AList.update k v qs"
    if "k \<notin> fst ` set qs" for k and v w :: position and qs :: positions
    using that by (induction qs) auto
  show ?thesis
    using None notin by (simp add: process_tx_def Let_def upd map_add_def)
next
  case (Some p)
  then have "position_key tx \<in> fst ` set ps"
    by (force dest: map_of_SomeD)
  then show ?thesis
    using Some by (simp add: process_tx_def Let_def)
qed

lemma distinct_process_tx:
  "distinct (map fst ps) \<Longrightarrow> distinct (map fst (process_tx ps tx))"
  by (simp add: process_tx_eq distinct_update)

lemma distinct_foldl_process_tx:
  "distinct (map fst ps) \<Longrightarrow> distinct (map fst (foldl process_tx ps txs))"
  by (induction txs arbitrary: ps) (simp_all add: distinct_process_tx)

lemma set_update_cases:
  "(k, p) \<in> set (AList.update k' v ps) \<Longrightarrow> (k, p) \<in> set ps \<or> (k = k' \<and> p = v)"
  by (induction ps) (auto split: if_splits)


lemma map_of_process_tx_other:
  "position_key tx \<noteq> k \<Longrightarrow> map_of (process_tx ps tx) k = map_of ps k"
  by (simp add: process_tx_eq update_conv')

lemma position_ok_new: "position_ok (new_position tx)"
  by (simp add: position_ok_def new_position_def)

lemma sell_all_cost_basis:
  assumes "0 < shares p" and "shares p \<le> \<bar>u\<bar>"
  shows "cost_basis p - cost_reduction p u = 0"
proof -
  have "min \<bar>u\<bar> (shares p) = shares p"
    using assms by simp
  then show ?thesis
    using assms by (simp add: cost_reduction_def avg_cost_def)
qed

lemma position_ok_update:
  assumes "position_ok p"
  shows "position_ok (update_position p tx)"
proof -
  consider (buy) "0 < tx_units tx"
    | (sell) "\<not> 0 < tx_units tx" "tx_units tx < 0 \<and> 0 < shares p"
    | (skip) "\<not> 0 < tx_units tx" "\<not> (tx_units tx < 0 \<and> 0 < shares p)"
    by blast
  then show ?thesis
  proof cases
    case buy
    then show ?thesis
      using assms by (simp add: position_ok_def update_position_def Let_def)
  next
    case sell
    have "cost_basis p - cost_reduction p (tx_units tx) = 0"
      if "shares p - \<bar>tx_units tx\<bar> \<le> 0"
      using sell that by (intro sell_all_cost_basis) simp_all
    then show ?thesis
      using sell by (auto simp add: position_ok_def update_position_def Let_def max_def)
  next
    case skip
    then have "update_position p tx = p"
      by (auto simp add: update_position_def Let_def)
    then show ?thesis
      using assms by simp
  qed
qed

lemma positions_ok_process_tx:
  assumes "\<forall>(k, p) \<in> set ps. position_ok p"
  shows "\<forall>(k, p) \<in> set (process_tx ps tx). position_ok p"
proof -
  let ?old = "case map_of ps (position_key tx) of None \<Rightarrow> new_position tx | Some p \<Rightarrow> p"
  have "position_ok ?old"
    using assms by (auto simp add: position_ok_new split: option.splits dest: map_of_SomeD)
  then have "position_ok (update_position ?old tx)"
    by (rule position_ok_update)
  then show ?thesis
    using assms by (auto simp add: process_tx_eq dest!: set_update_cases)
qed

lemma positions_ok_foldl:
  "\<forall>(k, p) \<in> set ps. position_ok p \<Longrightarrow>
   \<forall>(k, p) \<in> set (foldl process_tx ps txs). position_ok p"
proof (induction txs arbitrary: ps)
  case Nil
  then show ?case by simp
next
  case (Cons tx txs)
  have "\<forall>(k, p) \<in> set (process_tx ps tx). position_ok p"
    using Cons.prems by (rule positions_ok_process_tx)
  then have "\<forall>(k, p) \<in> set (foldl process_tx (process_tx ps tx) txs). position_ok p"
    by (rule Cons.IH)
  then show ?case by simp
qed

lemma positions_ok_replay: "(k, p) \<in> set (replay txs) \<Longrightarrow> position_ok p"
  using positions_ok_foldl [of "[]" txs] by (auto simp add: replay_def)



lemma update_position_sell:
  assumes "0 < shares pos" and "tx_units tx < 0"
  shows "update_position pos tx =
           pos\<lparr>cost_basis := max 0 (cost_basis pos - cost_reduction pos (tx_units tx)),
               shares := max 0 (shares pos - \<bar>tx_units tx\<bar>)\<rparr>"
  using assms by (simp add: update_position_def Let_def)

lemma update_position_buy:
  assumes "0 < tx_units tx"
  shows "update_position pos tx =
           pos\<lparr>cost_basis := cost_basis pos + \<bar>tx_amount tx\<bar>,
               shares := shares pos + tx_units tx\<rparr>"
  using assms by (simp add: update_position_def Let_def)

section \<open>Disposal\<close>

text \<open>
  Claim C1. A position with shares \<open>s > 0\<close> and cost basis \<open>c \<ge> 0\<close> that receives a
  transaction with units \<open>u < 0\<close> has afterwards the cost basis
  \<open>max(0, c - (c/s) * min(|u|, s))\<close> and the shares \<open>max(0, s - |u|)\<close>. In the scenario of
  the specification, a position of 10 shares bought for 3000 has the average cost 300, a
  disposal of 4 units reduces the cost basis by 1200, and the position is left with
  6 shares and the cost basis 1800.
\<close>

theorem C1_disposal_update:
  assumes "0 < shares pos" and "0 \<le> cost_basis pos" and "tx_units tx < 0"
  shows "cost_basis (update_position pos tx)
           = max 0 (cost_basis pos - cost_basis pos / shares pos * min \<bar>tx_units tx\<bar> (shares pos))
       \<and> shares (update_position pos tx) = max 0 (shares pos - \<bar>tx_units tx\<bar>)
       \<and> avg_cost \<lparr>fund = f, account = a, shares = 10, cost_basis = 3000\<rparr> = 300
       \<and> cost_reduction \<lparr>fund = f, account = a, shares = 10, cost_basis = 3000\<rparr> (- 4) = 1200
       \<and> update_position \<lparr>fund = f, account = a, shares = 10, cost_basis = 3000\<rparr>
            \<lparr>tx_date = ''2025-09-03'', tx_fund = f, tx_money_source = a, tx_activity = act,
             tx_units = - 4, tx_unit_price = 320, tx_amount = 1280\<rparr>
           = \<lparr>fund = f, account = a, shares = 6, cost_basis = 1800\<rparr>"
proof -
  have "cost_reduction pos (tx_units tx)
          = cost_basis pos / shares pos * min \<bar>tx_units tx\<bar> (shares pos)"
    using assms(1) by (simp add: cost_reduction_def avg_cost_def)
  then have "cost_basis (update_position pos tx)
           = max 0 (cost_basis pos - cost_basis pos / shares pos * min \<bar>tx_units tx\<bar> (shares pos))"
    using assms by (simp add: update_position_sell)
  moreover have "shares (update_position pos tx) = max 0 (shares pos - \<bar>tx_units tx\<bar>)"
    using assms by (simp add: update_position_sell)
  moreover have "avg_cost \<lparr>fund = f, account = a, shares = 10, cost_basis = 3000\<rparr> = 300"
    by (simp add: avg_cost_def)
  moreover have
    "cost_reduction \<lparr>fund = f, account = a, shares = 10, cost_basis = 3000\<rparr> (- 4) = 1200"
    by (simp add: cost_reduction_def avg_cost_def)
  moreover have "update_position \<lparr>fund = f, account = a, shares = 10, cost_basis = 3000\<rparr>
            \<lparr>tx_date = ''2025-09-03'', tx_fund = f, tx_money_source = a, tx_activity = act,
             tx_units = - 4, tx_unit_price = 320, tx_amount = 1280\<rparr>
           = \<lparr>fund = f, account = a, shares = 6, cost_basis = 1800\<rparr>"
    by (simp add: update_position_def cost_reduction_def avg_cost_def)
  ultimately show ?thesis
    by blast
qed

text \<open>
  The scenario through the ledger: the purchase of 10 units for 3000 on 2025-09-02 and
  the disposal of 4 units on 2025-09-03, replayed from the empty dictionary.
\<close>

theorem C1_disposal_update_witness:
  "replay
     [\<lparr>tx_date = ''2025-09-02'', tx_fund = ''VTI'', tx_money_source = ''Brokerage'',
       tx_activity = ''Buy'', tx_units = 10, tx_unit_price = 300, tx_amount = - 3000\<rparr>]
     = [(''VTI||Brokerage'',
         \<lparr>fund = ''VTI'', account = ''Brokerage'', shares = 10, cost_basis = 3000\<rparr>)]
   \<and> cost_basis (update_position
         \<lparr>fund = ''VTI'', account = ''Brokerage'', shares = 10, cost_basis = 3000\<rparr>
         \<lparr>tx_date = ''2025-09-03'', tx_fund = ''VTI'', tx_money_source = ''Brokerage'',
          tx_activity = ''Sell'', tx_units = - 4, tx_unit_price = 320, tx_amount = 1280\<rparr>) = 1800
   \<and> shares (update_position
         \<lparr>fund = ''VTI'', account = ''Brokerage'', shares = 10, cost_basis = 3000\<rparr>
         \<lparr>tx_date = ''2025-09-03'', tx_fund = ''VTI'', tx_money_source = ''Brokerage'',
          tx_activity = ''Sell'', tx_units = - 4, tx_unit_price = 320, tx_amount = 1280\<rparr>) = 6"
proof -
  have "replay
     [\<lparr>tx_date = ''2025-09-02'', tx_fund = ''VTI'', tx_money_source = ''Brokerage'',
       tx_activity = ''Buy'', tx_units = 10, tx_unit_price = 300, tx_amount = - 3000\<rparr>]
     = [(''VTI||Brokerage'',
         \<lparr>fund = ''VTI'', account = ''Brokerage'', shares = 10, cost_basis = 3000\<rparr>)]"
    by (simp add: replay_def process_tx_def position_key_def new_position_def
        update_position_def)
  then show ?thesis
    using C1_disposal_update
      [of "\<lparr>fund = ''VTI'', account = ''Brokerage'', shares = 10, cost_basis = 3000\<rparr>"
          "\<lparr>tx_date = ''2025-09-03'', tx_fund = ''VTI'', tx_money_source = ''Brokerage'',
            tx_activity = ''Sell'', tx_units = - 4, tx_unit_price = 320, tx_amount = 1280\<rparr>"]
    by simp
qed

text \<open>
  Claim C2. After any sequence of applied transactions every position of the ledger has
  shares \<open>\<ge> 0\<close> and cost basis \<open>\<ge> 0\<close>, also when a disposal exceeds the shares held: a
  disposal of 100 units against a position of 6 shares with cost basis 1800 leaves the
  position with 0 shares and cost basis 0. The update has no failing branch.
\<close>

theorem C2_never_negative:
  "(\<forall>(k, p) \<in> set (replay txs). 0 \<le> shares p \<and> 0 \<le> cost_basis p)
   \<and> (0 \<le> shares pos \<and> 0 \<le> cost_basis pos \<longrightarrow>
        0 \<le> shares (update_position pos tx) \<and> 0 \<le> cost_basis (update_position pos tx))
   \<and> update_position \<lparr>fund = f, account = a, shares = 6, cost_basis = 1800\<rparr>
        \<lparr>tx_date = d, tx_fund = f, tx_money_source = a, tx_activity = act,
         tx_units = - 100, tx_unit_price = up, tx_amount = am\<rparr>
      = \<lparr>fund = f, account = a, shares = 0, cost_basis = 0\<rparr>"
proof -
  have "\<forall>(k, p) \<in> set (replay txs). 0 \<le> shares p \<and> 0 \<le> cost_basis p"
    using positions_ok_replay [of _ _ txs] by (auto simp add: position_ok_def)
  moreover have "0 \<le> shares (update_position pos tx) \<and> 0 \<le> cost_basis (update_position pos tx)"
    if "0 \<le> shares pos \<and> 0 \<le> cost_basis pos"
    using that by (auto simp add: update_position_def Let_def)
  moreover have "update_position \<lparr>fund = f, account = a, shares = 6, cost_basis = 1800\<rparr>
        \<lparr>tx_date = d, tx_fund = f, tx_money_source = a, tx_activity = act,
         tx_units = - 100, tx_unit_price = up, tx_amount = am\<rparr>
      = \<lparr>fund = f, account = a, shares = 0, cost_basis = 0\<rparr>"
    by (simp add: update_position_def cost_reduction_def avg_cost_def)
  ultimately show ?thesis
    by blast
qed

theorem C2_never_negative_witness:
  "replay
     [\<lparr>tx_date = ''2025-09-02'', tx_fund = ''VTI'', tx_money_source = ''Brokerage'',
       tx_activity = ''Buy'', tx_units = 10, tx_unit_price = 300, tx_amount = - 3000\<rparr>,
      \<lparr>tx_date = ''2025-09-03'', tx_fund = ''VTI'', tx_money_source = ''Brokerage'',
       tx_activity = ''Sell'', tx_units = - 4, tx_unit_price = 320, tx_amount = 1280\<rparr>,
      \<lparr>tx_date = ''2025-09-04'', tx_fund = ''VTI'', tx_money_source = ''Brokerage'',
       tx_activity = ''Sell'', tx_units = - 100, tx_unit_price = 320, tx_amount = 1920\<rparr>]
     = [(''VTI||Brokerage'',
         \<lparr>fund = ''VTI'', account = ''Brokerage'', shares = 0, cost_basis = 0\<rparr>)]
   \<and> (0::rat) \<le> shares \<lparr>fund = ''VTI'', account = ''Brokerage'', shares = 0, cost_basis = 0\<rparr>
   \<and> (0::rat) \<le> cost_basis \<lparr>fund = ''VTI'', account = ''Brokerage'', shares = 0, cost_basis = 0\<rparr>"
proof -
  let ?txs = "[\<lparr>tx_date = ''2025-09-02'', tx_fund = ''VTI'', tx_money_source = ''Brokerage'',
       tx_activity = ''Buy'', tx_units = 10, tx_unit_price = 300, tx_amount = - 3000\<rparr>,
      \<lparr>tx_date = ''2025-09-03'', tx_fund = ''VTI'', tx_money_source = ''Brokerage'',
       tx_activity = ''Sell'', tx_units = - 4, tx_unit_price = 320, tx_amount = 1280\<rparr>,
      \<lparr>tx_date = ''2025-09-04'', tx_fund = ''VTI'', tx_money_source = ''Brokerage'',
       tx_activity = ''Sell'', tx_units = - 100, tx_unit_price = 320, tx_amount = 1920\<rparr>]"
  have run: "replay ?txs = [(''VTI||Brokerage'',
         \<lparr>fund = ''VTI'', account = ''Brokerage'', shares = 0, cost_basis = 0\<rparr>)]"
    by (simp add: replay_def process_tx_def position_key_def new_position_def
        update_position_def cost_reduction_def avg_cost_def)
  show ?thesis
    using C2_never_negative [of ?txs] by (simp add: run)
qed

section \<open>Average cost\<close>



section \<open>Liquidated positions\<close>

text \<open>
  Claim C10. In exact arithmetic, after any sequence of applied transactions a position
  of the ledger whose shares are 0 has the cost basis 0: a disposal that takes all the
  remaining shares of a position takes all of its remaining cost basis.
\<close>

theorem C10_no_residual_basis:
  "(\<forall>(k, p) \<in> set (replay txs). shares p = 0 \<longrightarrow> cost_basis p = 0)
   \<and> (0 < shares pos \<and> tx_units tx < 0 \<and> shares pos \<le> \<bar>tx_units tx\<bar> \<longrightarrow>
        shares (update_position pos tx) = 0 \<and> cost_basis (update_position pos tx) = 0)"
proof -
  have "\<forall>(k, p) \<in> set (replay txs). shares p = 0 \<longrightarrow> cost_basis p = 0"
    using positions_ok_replay [of _ _ txs] by (auto simp add: position_ok_def)
  moreover have "shares (update_position pos tx) = 0 \<and> cost_basis (update_position pos tx) = 0"
    if "0 < shares pos \<and> tx_units tx < 0 \<and> shares pos \<le> \<bar>tx_units tx\<bar>"
  proof -
    from that have held: "0 < shares pos" and all: "shares pos \<le> \<bar>tx_units tx\<bar>"
      by blast+
    have "cost_basis pos - cost_reduction pos (tx_units tx) = 0"
      using held all by (rule sell_all_cost_basis)
    moreover have "shares pos - \<bar>tx_units tx\<bar> \<le> 0"
      using that by linarith
    ultimately show ?thesis
      using that by (simp add: update_position_sell max_def)
  qed
  ultimately show ?thesis
    by blast
qed

theorem C10_no_residual_basis_witness:
  "replay
     [\<lparr>tx_date = ''2025-09-02'', tx_fund = ''VTI'', tx_money_source = ''Brokerage'',
       tx_activity = ''Buy'', tx_units = 10, tx_unit_price = 300, tx_amount = - 3000\<rparr>,
      \<lparr>tx_date = ''2025-09-03'', tx_fund = ''VTI'', tx_money_source = ''Brokerage'',
       tx_activity = ''Sell'', tx_units = - 10, tx_unit_price = 320, tx_amount = 3200\<rparr>]
     = [(''VTI||Brokerage'',
         \<lparr>fund = ''VTI'', account = ''Brokerage'', shares = 0, cost_basis = 0\<rparr>)]
   \<and> shares \<lparr>fund = ''VTI'', account = ''Brokerage'', shares = 0, cost_basis = 0\<rparr> = (0::rat)
   \<and> cost_basis \<lparr>fund = ''VTI'', account = ''Brokerage'', shares = 0, cost_basis = 0\<rparr> = (0::rat)"
proof -
  let ?txs = "[\<lparr>tx_date = ''2025-09-02'', tx_fund = ''VTI'', tx_money_source = ''Brokerage'',
       tx_activity = ''Buy'', tx_units = 10, tx_unit_price = 300, tx_amount = - 3000\<rparr>,
      \<lparr>tx_date = ''2025-09-03'', tx_fund = ''VTI'', tx_money_source = ''Brokerage'',
       tx_activity = ''Sell'', tx_units = - 10, tx_unit_price = 320, tx_amount = 3200\<rparr>]"
  have run: "replay ?txs = [(''VTI||Brokerage'',
         \<lparr>fund = ''VTI'', account = ''Brokerage'', shares = 0, cost_basis = 0\<rparr>)]"
    by (simp add: replay_def process_tx_def position_key_def new_position_def
        update_position_def cost_reduction_def avg_cost_def)
  show ?thesis
    using C10_no_residual_basis [of ?txs] by (simp add: run)
qed

section \<open>Acquisitions\<close>

lemma process_tx_singleton:
  assumes "position_key tx = k"
  shows "process_tx [(k, p)] tx = [(k, update_position p tx)]"
  using assms by (simp add: process_tx_eq)

lemma foldl_acquisitions:
  assumes "\<forall>tx \<in> set txs. 0 < tx_units tx \<and> position_key tx = k"
  shows "foldl process_tx [(k, p)] txs =
           [(k, p\<lparr>cost_basis := cost_basis p + sum_list (map (\<lambda>tx. \<bar>tx_amount tx\<bar>) txs),
                  shares := shares p + sum_list (map tx_units txs)\<rparr>)]"
  using assms
proof (induction txs arbitrary: p)
  case Nil
  then show ?case by simp
next
  case (Cons tx txs)
  have step: "process_tx [(k, p)] tx =
      [(k, p\<lparr>cost_basis := cost_basis p + \<bar>tx_amount tx\<bar>, shares := shares p + tx_units tx\<rparr>)]"
    using Cons.prems by (simp add: process_tx_singleton update_position_buy)
  have rest: "\<forall>tx \<in> set txs. 0 < tx_units tx \<and> position_key tx = k"
    using Cons.prems by simp
  show ?case
    by (simp add: step Cons.IH [OF rest] add.assoc)
qed

lemma replay_acquisitions:
  assumes "txs \<noteq> []"
    and "\<forall>tx \<in> set txs. 0 < tx_units tx \<and> tx_fund tx = f \<and> tx_money_source tx = a"
  shows "replay txs =
           [(f @ ''||'' @ a,
             \<lparr>fund = f, account = a, shares = sum_list (map tx_units txs),
              cost_basis = sum_list (map (\<lambda>tx. \<bar>tx_amount tx\<bar>) txs)\<rparr>)]"
proof -
  obtain tx rest where txs: "txs = tx # rest"
    using assms(1) by (cases txs) auto
  have keys: "\<forall>t \<in> set txs. 0 < tx_units t \<and> position_key t = f @ ''||'' @ a"
    using assms(2) by (simp add: position_key_def)
  have first: "process_tx [] tx =
      [(f @ ''||'' @ a, \<lparr>fund = f, account = a, shares = tx_units tx, cost_basis = \<bar>tx_amount tx\<bar>\<rparr>)]"
    using assms(2) keys
    by (simp add: txs process_tx_eq update_position_buy new_position_def)
  have "\<forall>t \<in> set rest. 0 < tx_units t \<and> position_key t = f @ ''||'' @ a"
    using keys by (simp add: txs)
  then show ?thesis
    by (simp add: replay_def txs first foldl_acquisitions)
qed

lemma sum_list_map_mset:
  fixes g :: "'a \<Rightarrow> rat"
  assumes "mset xs = mset ys"
  shows "sum_list (map g xs) = sum_list (map g ys)"
proof -
  have "sum_mset (image_mset g (mset xs)) = sum_mset (image_mset g (mset ys))"
    using assms by simp
  then show ?thesis
    by (simp add: sum_mset_sum_list flip: mset_map)
qed

subsection \<open>Double precision\<close>

text \<open>
  The rounding is what it is meant to be: the exponent is the right one, the result is a
  multiple of the unit in the last place within half a unit of the exact value, and the
  test for an infinity is the comparison with \<open>2\<^sup>1\<^sup>0\<^sup>2\<^sup>4\<close>.
\<close>

lemma floor_log2_bounds:
  assumes "0 < x"
  shows "2 powi floor_log2 x \<le> x \<and> x < 2 powi (floor_log2 x + 1)"
proof -
  define p q where "p = fst (quotient_of x)" and "q = snd (quotient_of x)"
  define e where "e = bitlen p - bitlen q"
  have q: "0 < q"
    unfolding q_def by (rule quotient_of_denom_pos')
  have x: "x = of_int p / of_int q"
    unfolding p_def q_def by (intro quotient_of_div) simp
  have p: "0 < p"
    using assms q by (simp add: x zero_less_divide_iff)
  have bp: "1 \<le> bitlen p" and bq: "1 \<le> bitlen q"
    using p q bitlen_eq_zero_iff [of p] bitlen_eq_zero_iff [of q] bitlen_nonneg [of p]
      bitlen_nonneg [of q] by linarith+
  have pow: "(2::rat) ^ nat n = 2 powi n" if "0 \<le> n" for n
    using that by (simp add: power_int_def)
  have "(2::int) ^ nat (bitlen p - 1) \<le> p" and "p < 2 ^ nat (bitlen p)"
    and "(2::int) ^ nat (bitlen q - 1) \<le> q" and "q < 2 ^ nat (bitlen q)"
    using bitlen_bounds [OF p] bitlen_bounds [OF q] by simp_all
  then have "(of_int (2 ^ nat (bitlen p - 1)) :: rat) \<le> of_int p"
    and "(of_int p :: rat) < of_int (2 ^ nat (bitlen p))"
    and "(of_int (2 ^ nat (bitlen q - 1)) :: rat) \<le> of_int q"
    and "(of_int q :: rat) < of_int (2 ^ nat (bitlen q))"
    by (simp_all only: of_int_le_iff of_int_less_iff)
  then have P: "2 powi (bitlen p - 1) \<le> (of_int p :: rat)" "(of_int p :: rat) < 2 powi bitlen p"
    and Q: "2 powi (bitlen q - 1) \<le> (of_int q :: rat)" "(of_int q :: rat) < 2 powi bitlen q"
    using bp bq by (simp_all add: pow)
  have qpos: "(0::rat) < of_int q" and ppos: "(0::rat) < of_int p"
    using p q by simp_all
  have "x < 2 powi bitlen p / 2 powi (bitlen q - 1)"
    unfolding x using P(2) Q(1) qpos ppos
    by (intro frac_less) (simp_all add: less_imp_le)
  then have upper: "x < 2 powi (e + 1)"
    by (simp add: e_def power_int_diff power_int_add)
  have "2 powi (bitlen p - 1) / 2 powi bitlen q < x"
    unfolding x using P(1) Q(2) qpos
    by (intro frac_less2) simp_all
  then have lower: "2 powi (e - 1) < x"
    by (simp add: e_def power_int_diff)
  have "floor_log2 x = (if 2 powi e \<le> x then e else e - 1)"
    by (simp add: floor_log2_def Let_def e_def p_def q_def)
  then show ?thesis
    using upper lower by (auto simp add: less_imp_le)
qed

lemma round_half_even_near: "\<bar>of_int (round_half_even y) - y\<bar> \<le> 1 / 2"
proof -
  have "of_int \<lfloor>y\<rfloor> \<le> y" and "y < of_int \<lfloor>y\<rfloor> + 1"
    by linarith+
  then show ?thesis
    by (auto simp add: round_half_even_def Let_def)
qed

lemma floor_log2_overflow:
  assumes "0 < x"
  shows "1024 \<le> floor_log2 x \<longleftrightarrow> 2 powi 1024 \<le> x"
proof
  assume "1024 \<le> floor_log2 x"
  then have "(2::rat) powi 1024 \<le> 2 powi floor_log2 x"
    by (intro power_int_increasing) simp_all
  then show "2 powi 1024 \<le> x"
    using floor_log2_bounds [OF assms] by linarith
next
  assume "2 powi 1024 \<le> x"
  then have less: "(2::rat) powi 1024 < 2 powi (floor_log2 x + 1)"
    using floor_log2_bounds [OF assms] by linarith
  have "1024 < floor_log2 x + 1"
  proof (rule ccontr)
    assume "\<not> 1024 < floor_log2 x + 1"
    then have "floor_log2 x + 1 \<le> 1024"
      by simp
    then have "(2::rat) powi (floor_log2 x + 1) \<le> 2 powi 1024"
      by (intro power_int_increasing) simp_all
    with less show False
      by simp
  qed
  then show "1024 \<le> floor_log2 x"
    by simp
qed

lemma round_double_near:
  assumes "round_double x = Finite r"
  shows "\<bar>r - x\<bar> \<le> 2 powi (max (floor_log2 \<bar>x\<bar> - 52) (- 1074)) / 2
       \<and> (\<exists>k :: int. r = of_int k * 2 powi (max (floor_log2 \<bar>x\<bar> - 52) (- 1074)))"
proof (cases "x = 0")
  case True
  then show ?thesis
    using assms by (auto simp add: round_double_def)
next
  case False
  define ulp :: rat where "ulp = 2 powi (max (floor_log2 \<bar>x\<bar> - 52) (- 1074))"
  have ulp: "0 < ulp"
    by (simp add: ulp_def)
  have r: "r = of_int (round_half_even (x / ulp)) * ulp"
    using assms False by (simp add: round_double_def Let_def ulp_def split: if_splits)
  have "r - x = (of_int (round_half_even (x / ulp)) - x / ulp) * ulp"
    using ulp by (simp add: r algebra_simps)
  then have "\<bar>r - x\<bar> = \<bar>of_int (round_half_even (x / ulp)) - x / ulp\<bar> * ulp"
    using ulp by (simp add: abs_mult)
  also have "\<dots> \<le> 1 / 2 * ulp"
    using round_half_even_near ulp by (intro mult_right_mono) simp_all
  finally have "\<bar>r - x\<bar> \<le> ulp / 2"
    by simp
  then show ?thesis
    using r unfolding ulp_def by blast
qed

lemma truediv_guarded: "float_gt b (Finite 0) \<Longrightarrow> float_truediv a b \<noteq> None"
  by (cases a; cases b) (auto simp add: float_gt_def)

lemma float_process_tx_eq:
  "float_process_tx ps tx =
     AList.update (float_position_key tx)
       (float_update_position
          (case map_of ps (float_position_key tx) of
             None \<Rightarrow> float_new_position tx | Some p \<Rightarrow> p) tx) ps"
proof (cases "map_of ps (float_position_key tx)")
  case None
  then have notin: "float_position_key tx \<notin> fst ` set ps"
    by (simp add: map_of_eq_None_iff)
  have upd: "AList.update k v (qs @ [(k, w)]) = AList.update k v qs"
    if "k \<notin> fst ` set qs" for k and v w :: float_position and qs :: float_positions
    using that by (induction qs) auto
  show ?thesis
    using None notin by (simp add: float_process_tx_def Let_def upd map_add_def)
next
  case (Some p)
  then have "float_position_key tx \<in> fst ` set ps"
    by (force dest: map_of_SomeD)
  then show ?thesis
    using Some by (simp add: float_process_tx_def Let_def)
qed

lemma float_update_position_buy:
  assumes "float_gt (ftx_units tx) (Finite 0)"
  shows "float_update_position pos tx =
           pos\<lparr>fcost_basis := float_add (fcost_basis pos) (float_abs (ftx_amount tx)),
               fshares := float_add (fshares pos) (ftx_units tx)\<rparr>"
  using assms by (simp add: float_update_position_def Let_def)

lemma float_foldl_acquisitions:
  assumes "\<forall>tx \<in> set txs. float_gt (ftx_units tx) (Finite 0) \<and> float_position_key tx = k"
  shows "foldl float_process_tx [(k, p)] txs =
           [(k, p\<lparr>fcost_basis :=
                    foldl float_add (fcost_basis p) (map (\<lambda>tx. float_abs (ftx_amount tx)) txs),
                  fshares := foldl float_add (fshares p) (map ftx_units txs)\<rparr>)]"
  using assms
proof (induction txs arbitrary: p)
  case Nil
  then show ?case by simp
next
  case (Cons tx txs)
  have step: "float_process_tx [(k, p)] tx =
      [(k, p\<lparr>fcost_basis := float_add (fcost_basis p) (float_abs (ftx_amount tx)),
             fshares := float_add (fshares p) (ftx_units tx)\<rparr>)]"
    using Cons.prems by (simp add: float_process_tx_eq float_update_position_buy)
  have rest: "\<forall>tx \<in> set txs. float_gt (ftx_units tx) (Finite 0) \<and> float_position_key tx = k"
    using Cons.prems by simp
  show ?case
    by (simp add: step Cons.IH [OF rest])
qed

lemma float_replay_acquisitions:
  assumes "\<forall>tx \<in> set txs.
      float_gt (ftx_units tx) (Finite 0) \<and> ftx_fund tx = f \<and> ftx_money_source tx = a"
    and "txs \<noteq> []"
  shows "float_replay txs =
           [(f @ ''||'' @ a,
             \<lparr>ffund = f, faccount = a,
              fshares = foldl float_add (Finite 0) (map ftx_units txs),
              fcost_basis =
                foldl float_add (Finite 0) (map (\<lambda>tx. float_abs (ftx_amount tx)) txs)\<rparr>)]"
proof -
  obtain tx rest where txs: "txs = tx # rest"
    using assms(2) by (cases txs) auto
  have keys: "\<forall>t \<in> set txs.
      float_gt (ftx_units t) (Finite 0) \<and> float_position_key t = f @ ''||'' @ a"
    using assms(1) by (simp add: float_position_key_def)
  have first: "float_process_tx [] tx =
      [(f @ ''||'' @ a,
        \<lparr>ffund = f, faccount = a, fshares = float_add (Finite 0) (ftx_units tx),
         fcost_basis = float_add (Finite 0) (float_abs (ftx_amount tx))\<rparr>)]"
    using assms(1) keys
    by (simp add: txs float_process_tx_eq float_update_position_buy float_new_position_def)
  have "\<forall>t \<in> set rest.
      float_gt (ftx_units t) (Finite 0) \<and> float_position_key t = f @ ''||'' @ a"
    using keys by (simp add: txs)
  then show ?thesis
    by (simp add: float_replay_def txs first float_foldl_acquisitions)
qed

text \<open>The doubles of some decimal numbers, as \<open>float\<close> reads them.\<close>

lemma round_double_examples:
  "round_double 0.1 = Finite (3602879701896397 / 36028797018963968)"
  "round_double 0.2 = Finite (3602879701896397 / 18014398509481984)"
  "round_double 0.3 = Finite (5404319552844595 / 18014398509481984)"
  "round_double (- 0.1) = Finite (- (3602879701896397 / 36028797018963968))"
  "round_double (- 0.2) = Finite (- (3602879701896397 / 18014398509481984))"
  "round_double (- 0.3) = Finite (- (5404319552844595 / 18014398509481984))"
  "round_double 0.6 = Finite (5404319552844595 / 9007199254740992)"
  "round_double 3000 = Finite 3000"
  by code_simp+

text \<open>
  Claim C4, as amended. Acquisitions only (every transaction has units \<open>> 0\<close>) of one
  instrument in one account, replayed from the empty ledger, leave one position whose
  cost basis is the sum of the absolute amounts and whose shares are the sum of the units,
  each sum taken in double precision in the order of application, starting from 0.0.
  In exact arithmetic the two sums are the exact sums and any reordering of the
  transactions gives the same ledger.
\<close>

theorem C4_acquisitions_sum:
  "((\<forall>tx \<in> set ftxs.
        float_gt (ftx_units tx) (Finite 0) \<and> ftx_fund tx = f \<and> ftx_money_source tx = a)
      \<and> ftxs \<noteq> [] \<longrightarrow>
      float_replay ftxs =
        [(f @ ''||'' @ a,
          \<lparr>ffund = f, faccount = a,
           fshares = foldl float_add (Finite 0) (map ftx_units ftxs),
           fcost_basis =
             foldl float_add (Finite 0) (map (\<lambda>tx. float_abs (ftx_amount tx)) ftxs)\<rparr>)])
   \<and> ((\<forall>tx \<in> set txs. 0 < tx_units tx \<and> tx_fund tx = f \<and> tx_money_source tx = a)
      \<and> txs \<noteq> [] \<longrightarrow>
      replay txs =
        [(f @ ''||'' @ a,
          \<lparr>fund = f, account = a, shares = sum_list (map tx_units txs),
           cost_basis = sum_list (map (\<lambda>tx. \<bar>tx_amount tx\<bar>) txs)\<rparr>)]
      \<and> (\<forall>txs'. mset txs' = mset txs \<longrightarrow> replay txs' = replay txs))"
proof (intro conjI impI allI)
  assume "(\<forall>tx \<in> set ftxs.
        float_gt (ftx_units tx) (Finite 0) \<and> ftx_fund tx = f \<and> ftx_money_source tx = a)
      \<and> ftxs \<noteq> []"
  then show "float_replay ftxs =
        [(f @ ''||'' @ a,
          \<lparr>ffund = f, faccount = a,
           fshares = foldl float_add (Finite 0) (map ftx_units ftxs),
           fcost_basis =
             foldl float_add (Finite 0) (map (\<lambda>tx. float_abs (ftx_amount tx)) ftxs)\<rparr>)]"
    by (intro float_replay_acquisitions) simp_all
next
  assume "(\<forall>tx \<in> set txs. 0 < tx_units tx \<and> tx_fund tx = f \<and> tx_money_source tx = a)
      \<and> txs \<noteq> []"
  then show "replay txs =
        [(f @ ''||'' @ a,
          \<lparr>fund = f, account = a, shares = sum_list (map tx_units txs),
           cost_basis = sum_list (map (\<lambda>tx. \<bar>tx_amount tx\<bar>) txs)\<rparr>)]"
    by (intro replay_acquisitions) simp_all
next
  fix txs'
  assume buys: "(\<forall>tx \<in> set txs. 0 < tx_units tx \<and> tx_fund tx = f \<and> tx_money_source tx = a)
      \<and> txs \<noteq> []"
  assume perm: "mset txs' = mset txs"
  then have "set txs' = set txs"
    by (rule mset_eq_setD)
  moreover have "txs' \<noteq> []"
    using perm buys by auto
  ultimately have "replay txs' =
           [(f @ ''||'' @ a,
             \<lparr>fund = f, account = a, shares = sum_list (map tx_units txs'),
              cost_basis = sum_list (map (\<lambda>tx. \<bar>tx_amount tx\<bar>) txs')\<rparr>)]"
    using buys by (intro replay_acquisitions) simp_all
  moreover have "replay txs =
           [(f @ ''||'' @ a,
             \<lparr>fund = f, account = a, shares = sum_list (map tx_units txs),
              cost_basis = sum_list (map (\<lambda>tx. \<bar>tx_amount tx\<bar>) txs)\<rparr>)]"
    using buys by (intro replay_acquisitions) simp_all
  ultimately show "replay txs' = replay txs"
    by (simp add: sum_list_map_mset [OF perm])
qed

theorem C4_acquisitions_sum_witness:
  "float_replay
     [\<lparr>ftx_date = ''2025-09-02'', ftx_fund = ''VTI'', ftx_money_source = ''Brokerage'',
       ftx_activity = ''Buy'', ftx_units = Finite 1, ftx_unit_price = round_double 0.1,
       ftx_amount = round_double (- 0.1)\<rparr>,
      \<lparr>ftx_date = ''2025-09-02'', ftx_fund = ''VTI'', ftx_money_source = ''Brokerage'',
       ftx_activity = ''Buy'', ftx_units = Finite 1, ftx_unit_price = round_double 0.2,
       ftx_amount = round_double (- 0.2)\<rparr>,
      \<lparr>ftx_date = ''2025-09-02'', ftx_fund = ''VTI'', ftx_money_source = ''Brokerage'',
       ftx_activity = ''Buy'', ftx_units = Finite 1, ftx_unit_price = round_double 0.3,
       ftx_amount = round_double (- 0.3)\<rparr>]
     = [(''VTI||Brokerage'',
         \<lparr>ffund = ''VTI'', faccount = ''Brokerage'', fshares = Finite 3,
          fcost_basis = Finite (1351079888211149 / 2251799813685248)\<rparr>)]
   \<and> replay
     [\<lparr>tx_date = ''2025-09-02'', tx_fund = ''VTI'', tx_money_source = ''Brokerage'',
       tx_activity = ''Buy'', tx_units = 10, tx_unit_price = 300, tx_amount = - 3000\<rparr>,
      \<lparr>tx_date = ''2025-09-03'', tx_fund = ''VTI'', tx_money_source = ''Brokerage'',
       tx_activity = ''Buy'', tx_units = 2, tx_unit_price = 320, tx_amount = - 640\<rparr>]
     = [(''VTI||Brokerage'',
         \<lparr>fund = ''VTI'', account = ''Brokerage'', shares = 12, cost_basis = 3640\<rparr>)]
   \<and> replay
     [\<lparr>tx_date = ''2025-09-03'', tx_fund = ''VTI'', tx_money_source = ''Brokerage'',
       tx_activity = ''Buy'', tx_units = 2, tx_unit_price = 320, tx_amount = - 640\<rparr>,
      \<lparr>tx_date = ''2025-09-02'', tx_fund = ''VTI'', tx_money_source = ''Brokerage'',
       tx_activity = ''Buy'', tx_units = 10, tx_unit_price = 300, tx_amount = - 3000\<rparr>]
     = [(''VTI||Brokerage'',
         \<lparr>fund = ''VTI'', account = ''Brokerage'', shares = 12, cost_basis = 3640\<rparr>)]"
proof -
  let ?ftxs = "[\<lparr>ftx_date = ''2025-09-02'', ftx_fund = ''VTI'', ftx_money_source = ''Brokerage'',
       ftx_activity = ''Buy'', ftx_units = Finite 1, ftx_unit_price = round_double 0.1,
       ftx_amount = round_double (- 0.1)\<rparr>,
      \<lparr>ftx_date = ''2025-09-02'', ftx_fund = ''VTI'', ftx_money_source = ''Brokerage'',
       ftx_activity = ''Buy'', ftx_units = Finite 1, ftx_unit_price = round_double 0.2,
       ftx_amount = round_double (- 0.2)\<rparr>,
      \<lparr>ftx_date = ''2025-09-02'', ftx_fund = ''VTI'', ftx_money_source = ''Brokerage'',
       ftx_activity = ''Buy'', ftx_units = Finite 1, ftx_unit_price = round_double 0.3,
       ftx_amount = round_double (- 0.3)\<rparr>]"
  let ?t1 = "\<lparr>tx_date = ''2025-09-02'', tx_fund = ''VTI'', tx_money_source = ''Brokerage'',
       tx_activity = ''Buy'', tx_units = 10, tx_unit_price = 300, tx_amount = - 3000\<rparr>"
  let ?t2 = "\<lparr>tx_date = ''2025-09-03'', tx_fund = ''VTI'', tx_money_source = ''Brokerage'',
       tx_activity = ''Buy'', tx_units = 2, tx_unit_price = 320, tx_amount = - 640\<rparr>"
  have fbuys: "(\<forall>tx \<in> set ?ftxs.
      float_gt (ftx_units tx) (Finite 0) \<and> ftx_fund tx = ''VTI''
      \<and> ftx_money_source tx = ''Brokerage'') \<and> ?ftxs \<noteq> []"
    by (simp add: float_gt_def)
  have buys: "(\<forall>tx \<in> set [?t1, ?t2].
      0 < tx_units tx \<and> tx_fund tx = ''VTI'' \<and> tx_money_source tx = ''Brokerage'')
      \<and> [?t1, ?t2] \<noteq> []"
    by simp
  have perm: "mset [?t2, ?t1] = mset [?t1, ?t2]"
    by (simp add: add.commute)
  have units: "foldl float_add (Finite 0) (map ftx_units ?ftxs) = Finite 3"
    by code_simp
  have amounts: "foldl float_add (Finite 0) (map (\<lambda>tx. float_abs (ftx_amount tx)) ?ftxs)
      = Finite (1351079888211149 / 2251799813685248)"
    unfolding round_double_examples by code_simp
  note all = C4_acquisitions_sum [of ?ftxs "''VTI''" "''Brokerage''" "[?t1, ?t2]"]
  have "float_replay ?ftxs =
      [(''VTI'' @ ''||'' @ ''Brokerage'',
        \<lparr>ffund = ''VTI'', faccount = ''Brokerage'',
         fshares = foldl float_add (Finite 0) (map ftx_units ?ftxs),
         fcost_basis =
           foldl float_add (Finite 0) (map (\<lambda>tx. float_abs (ftx_amount tx)) ?ftxs)\<rparr>)]"
    using all [THEN conjunct1] fbuys by (rule mp)
  then have double: "float_replay ?ftxs =
      [(''VTI||Brokerage'',
         \<lparr>ffund = ''VTI'', faccount = ''Brokerage'', fshares = Finite 3,
          fcost_basis = Finite (1351079888211149 / 2251799813685248)\<rparr>)]"
    unfolding units amounts append.simps .
  have both: "replay [?t1, ?t2] =
      [(''VTI'' @ ''||'' @ ''Brokerage'',
        \<lparr>fund = ''VTI'', account = ''Brokerage'', shares = sum_list (map tx_units [?t1, ?t2]),
         cost_basis = sum_list (map (\<lambda>tx. \<bar>tx_amount tx\<bar>) [?t1, ?t2])\<rparr>)]
      \<and> (\<forall>txs'. mset txs' = mset [?t1, ?t2] \<longrightarrow> replay txs' = replay [?t1, ?t2])"
    using all [THEN conjunct2] buys by (rule mp)
  from both have exact: "replay [?t1, ?t2] =
      [(''VTI||Brokerage'',
         \<lparr>fund = ''VTI'', account = ''Brokerage'', shares = 12, cost_basis = 3640\<rparr>)]"
    by simp
  from both perm have "replay [?t2, ?t1] = replay [?t1, ?t2]"
    by blast
  then have swapped: "replay [?t2, ?t1] =
      [(''VTI||Brokerage'',
         \<lparr>fund = ''VTI'', account = ''Brokerage'', shares = 12, cost_basis = 3640\<rparr>)]"
    using exact by (rule trans)
  from double exact swapped show ?thesis
    by blast
qed

text \<open>
  The claim as it was stated, with the order of application free: the purchases for 0.1,
  0.2 and 0.3 leave the cost basis 0.6000000000000001 in this order and 0.6 in the
  opposite one.
\<close>

theorem C4_acquisitions_sum_counterexample:
  "float_replay
     [\<lparr>ftx_date = ''2025-09-02'', ftx_fund = ''VTI'', ftx_money_source = ''Brokerage'',
       ftx_activity = ''Buy'', ftx_units = Finite 1, ftx_unit_price = round_double 0.1,
       ftx_amount = round_double (- 0.1)\<rparr>,
      \<lparr>ftx_date = ''2025-09-02'', ftx_fund = ''VTI'', ftx_money_source = ''Brokerage'',
       ftx_activity = ''Buy'', ftx_units = Finite 1, ftx_unit_price = round_double 0.2,
       ftx_amount = round_double (- 0.2)\<rparr>,
      \<lparr>ftx_date = ''2025-09-02'', ftx_fund = ''VTI'', ftx_money_source = ''Brokerage'',
       ftx_activity = ''Buy'', ftx_units = Finite 1, ftx_unit_price = round_double 0.3,
       ftx_amount = round_double (- 0.3)\<rparr>]
     = [(''VTI||Brokerage'',
         \<lparr>ffund = ''VTI'', faccount = ''Brokerage'', fshares = Finite 3,
          fcost_basis = Finite (1351079888211149 / 2251799813685248)\<rparr>)]
   \<and> float_replay
     [\<lparr>ftx_date = ''2025-09-02'', ftx_fund = ''VTI'', ftx_money_source = ''Brokerage'',
       ftx_activity = ''Buy'', ftx_units = Finite 1, ftx_unit_price = round_double 0.3,
       ftx_amount = round_double (- 0.3)\<rparr>,
      \<lparr>ftx_date = ''2025-09-02'', ftx_fund = ''VTI'', ftx_money_source = ''Brokerage'',
       ftx_activity = ''Buy'', ftx_units = Finite 1, ftx_unit_price = round_double 0.2,
       ftx_amount = round_double (- 0.2)\<rparr>,
      \<lparr>ftx_date = ''2025-09-02'', ftx_fund = ''VTI'', ftx_money_source = ''Brokerage'',
       ftx_activity = ''Buy'', ftx_units = Finite 1, ftx_unit_price = round_double 0.1,
       ftx_amount = round_double (- 0.1)\<rparr>]
     = [(''VTI||Brokerage'',
         \<lparr>ffund = ''VTI'', faccount = ''Brokerage'', fshares = Finite 3,
          fcost_basis = Finite (5404319552844595 / 9007199254740992)\<rparr>)]
   \<and> (1351079888211149 / 2251799813685248 :: rat) \<noteq> 5404319552844595 / 9007199254740992"
  unfolding round_double_examples by code_simp

section \<open>The price oracle\<close>

lemma ticker_not_empty: "map_of FUND_TICKER_MAP name = Some ticker \<Longrightarrow> ticker \<noteq> []"
  by (auto simp add: FUND_TICKER_MAP_def split: if_splits)

lemma get_closing_price_eq:
  "get_closing_price name d =
     (case map_of FUND_TICKER_MAP name of
        None \<Rightarrow> None
      | Some ticker \<Rightarrow>
          (case table_price ticker d of
             None \<Rightarrow> None
           | Some price \<Rightarrow>
               Some (if name = ''0899 Vanguard 500 Index Fund Adm''
                     then price / VOYA_CONVERSION_RATIO else price)))"
  by (auto simp add: get_closing_price_def split: option.splits dest: ticker_not_empty)

lemma alias_ticker: "map_of FUND_TICKER_MAP ''0899 Vanguard 500 Index Fund Adm'' = Some ''VOO''"
  by (simp add: FUND_TICKER_MAP_def)

lemma voo_first_price: "table_price ''VOO'' ''2025-09-02'' = Some 588.71"
  by (simp add: table_price_def HISTORICAL_PRICES_def)

text \<open>
  Claim C5, as amended. The lookup divides the table price by 15.577 for the name
  \<open>0899 Vanguard 500 Index Fund Adm\<close> and returns the table price as it is for every other
  name of the alias table. For that name on 2025-09-02 the table price of its ticker is
  588.71 and the lookup returns 588.71 / 15.577, which is 37.7935 to four decimal places.
\<close>

theorem C5_conversion_ratio:
  "(name \<noteq> ''0899 Vanguard 500 Index Fund Adm'' \<and> map_of FUND_TICKER_MAP name = Some ticker
      \<and> table_price ticker d = Some price \<longrightarrow> get_closing_price name d = Some price)
   \<and> (table_price ''VOO'' d = Some price \<longrightarrow>
        get_closing_price ''0899 Vanguard 500 Index Fund Adm'' d = Some (price / 15.577))
   \<and> get_closing_price ''0899 Vanguard 500 Index Fund Adm'' ''2025-09-02''
        = Some (588.71 / 15.577)
   \<and> \<bar>588.71 / 15.577 - 37.7935\<bar> < (0.00005 :: rat)"
proof -
  have "get_closing_price name d = Some price"
    if "name \<noteq> ''0899 Vanguard 500 Index Fund Adm'' \<and> map_of FUND_TICKER_MAP name = Some ticker
      \<and> table_price ticker d = Some price"
    using that by (simp add: get_closing_price_eq)
  moreover have conv: "get_closing_price ''0899 Vanguard 500 Index Fund Adm'' d'
      = Some (price' / 15.577)"
    if "table_price ''VOO'' d' = Some price'" for d' price'
    using that by (simp add: get_closing_price_eq alias_ticker VOYA_CONVERSION_RATIO_def)
  moreover have "get_closing_price ''0899 Vanguard 500 Index Fund Adm'' ''2025-09-02''
        = Some (588.71 / 15.577)"
    using voo_first_price by (rule conv)
  moreover have "\<bar>588.71 / 15.577 - 37.7935\<bar> < (0.00005 :: rat)"
    by simp
  ultimately show ?thesis
    by blast
qed

theorem C5_conversion_ratio_witness:
  "''VTI'' \<noteq> ''0899 Vanguard 500 Index Fund Adm''
   \<and> map_of FUND_TICKER_MAP ''VTI'' = Some ''VTI''
   \<and> table_price ''VTI'' ''2025-09-02'' = Some 315.99
   \<and> get_closing_price ''VTI'' ''2025-09-02'' = Some 315.99
   \<and> table_price ''VOO'' ''2025-09-03'' = Some 591.72
   \<and> get_closing_price ''0899 Vanguard 500 Index Fund Adm'' ''2025-09-03''
        = Some (591.72 / 15.577)"
proof -
  have name: "''VTI'' \<noteq> ''0899 Vanguard 500 Index Fund Adm''"
    by simp
  have ticker: "map_of FUND_TICKER_MAP ''VTI'' = Some ''VTI''"
    by (simp add: FUND_TICKER_MAP_def)
  have vti: "table_price ''VTI'' ''2025-09-02'' = Some 315.99"
    by (simp add: table_price_def HISTORICAL_PRICES_def)
  have voo: "table_price ''VOO'' ''2025-09-03'' = Some 591.72"
    by (simp add: table_price_def HISTORICAL_PRICES_def)
  have "get_closing_price ''VTI'' ''2025-09-02'' = Some 315.99"
    using C5_conversion_ratio [of "''VTI''" "''VTI''" "''2025-09-02''" "315.99"]
      name ticker vti by blast
  moreover have "get_closing_price ''0899 Vanguard 500 Index Fund Adm'' ''2025-09-03''
        = Some (591.72 / 15.577)"
    using C5_conversion_ratio [of _ _ "''2025-09-03''" "591.72"] voo by blast
  ultimately show ?thesis
    using name ticker vti voo by blast
qed

text \<open>
  The figure of the claim as it was stated: the price returned for the alias on
  2025-09-02 is further than 0.009 from 37.7840.
\<close>

theorem C5_conversion_ratio_counterexample:
  "get_closing_price ''0899 Vanguard 500 Index Fund Adm'' ''2025-09-02'' = Some (588.71 / 15.577)
   \<and> (0.009 :: rat) < \<bar>588.71 / 15.577 - 37.7840\<bar>"
proof -
  have "get_closing_price ''0899 Vanguard 500 Index Fund Adm'' ''2025-09-02''
      = Some (588.71 / 15.577)"
    using voo_first_price
    by (simp add: get_closing_price_eq alias_ticker VOYA_CONVERSION_RATIO_def)
  moreover have "(0.009 :: rat) < \<bar>588.71 / 15.577 - 37.7840\<bar>"
    by simp
  ultimately show ?thesis
    by blast
qed

section \<open>The key of a position\<close>

text \<open>
  Claim C9. The claim is that transactions whose (instrument, account) pairs differ
  update distinct positions. The key is the concatenation of instrument, \<open>||\<close> and
  account, and two different pairs can give the same string: the purchases of \<open>VTI\<close> in the
  account \<open>IRA||Roth\<close> and of \<open>VTI||IRA\<close> in the account \<open>Roth\<close> meet in one position, which
  keeps the instrument and the account of the first and holds the shares and the cost
  basis of both.
\<close>

theorem C9_key_collision:
  "(tx_fund \<lparr>tx_date = ''2025-09-02'', tx_fund = ''VTI'', tx_money_source = ''IRA||Roth'',
       tx_activity = ''Buy'', tx_units = 10, tx_unit_price = 300, tx_amount = - 3000\<rparr>,
    tx_money_source \<lparr>tx_date = ''2025-09-02'', tx_fund = ''VTI'', tx_money_source = ''IRA||Roth'',
       tx_activity = ''Buy'', tx_units = 10, tx_unit_price = 300, tx_amount = - 3000\<rparr>)
   \<noteq> (tx_fund \<lparr>tx_date = ''2025-09-02'', tx_fund = ''VTI||IRA'', tx_money_source = ''Roth'',
       tx_activity = ''Buy'', tx_units = 5, tx_unit_price = 20, tx_amount = - 100\<rparr>,
      tx_money_source \<lparr>tx_date = ''2025-09-02'', tx_fund = ''VTI||IRA'', tx_money_source = ''Roth'',
       tx_activity = ''Buy'', tx_units = 5, tx_unit_price = 20, tx_amount = - 100\<rparr>)
   \<and> position_key \<lparr>tx_date = ''2025-09-02'', tx_fund = ''VTI'', tx_money_source = ''IRA||Roth'',
       tx_activity = ''Buy'', tx_units = 10, tx_unit_price = 300, tx_amount = - 3000\<rparr>
     = position_key \<lparr>tx_date = ''2025-09-02'', tx_fund = ''VTI||IRA'', tx_money_source = ''Roth'',
       tx_activity = ''Buy'', tx_units = 5, tx_unit_price = 20, tx_amount = - 100\<rparr>
   \<and> replay
       [\<lparr>tx_date = ''2025-09-02'', tx_fund = ''VTI'', tx_money_source = ''IRA||Roth'',
         tx_activity = ''Buy'', tx_units = 10, tx_unit_price = 300, tx_amount = - 3000\<rparr>,
        \<lparr>tx_date = ''2025-09-02'', tx_fund = ''VTI||IRA'', tx_money_source = ''Roth'',
         tx_activity = ''Buy'', tx_units = 5, tx_unit_price = 20, tx_amount = - 100\<rparr>]
     = [(''VTI||IRA||Roth'',
         \<lparr>fund = ''VTI'', account = ''IRA||Roth'', shares = 15, cost_basis = 3100\<rparr>)]"
  by (simp add: replay_def process_tx_def position_key_def new_position_def
      update_position_def)

section \<open>The valuation of a date\<close>

lemma make_holding_simps [simp]:
  "h_snapshot_date (make_holding d p c) = d"
  "h_fund (make_holding d p c) = fund p"
  "h_account_name (make_holding d p c) = account p"
  "h_shares (make_holding d p c) = shares p"
  "h_unit_price (make_holding d p c) = c"
  "h_market_value (make_holding d p c) = shares p * c"
  "h_cost_basis (make_holding d p c) = cost_basis p"
  "h_gain_loss (make_holding d p c) = shares p * c - cost_basis p"
  by (simp_all add: make_holding_def Let_def)

lemma value_positions_eq:
  "value_positions d ps hs tmv tcb =
     (hs @ day_holdings d ps,
      tmv + sum_list (map h_market_value (day_holdings d ps)),
      tcb + sum_list (map h_cost_basis (day_holdings d ps)))"
  by (induction d ps hs tmv tcb rule: value_positions.induct)
    (simp_all add: add.assoc split: option.splits)

lemma day_holdings_iff:
  "h \<in> set (day_holdings d ps) \<longleftrightarrow>
     (\<exists>(k, p) \<in> set ps. \<not> \<bar>shares p\<bar> < 0.0001 \<and>
        (\<exists>c. get_closing_price (fund p) d = Some c \<and> h = make_holding d p c))"
  by (induction d ps rule: day_holdings.induct) (auto split: option.splits)

lemma day_holdings_date: "h \<in> set (day_holdings d ps) \<Longrightarrow> h_snapshot_date h = d"
  by (auto simp add: day_holdings_iff)

lemma process_date_eq:
  "process_date txs st d =
     (let ps = foldl process_tx (positions st) (tx_by_date txs d);
          hs = day_holdings d ps
      in \<lparr>positions = ps,
          portfolio_snapshots = portfolio_snapshots st @
            (if hs \<noteq> [] then [make_portfolio d (sum_list (map h_market_value hs))
                                  (sum_list (map h_cost_basis hs))] else []),
          holdings_snapshots = holdings_snapshots st @ hs\<rparr>)"
  by (simp add: process_date_def value_positions_eq Let_def)


lemma positions_process_date:
  "positions (process_date txs st d) = foldl process_tx (positions st) (tx_by_date txs d)"
  by (simp add: process_date_eq Let_def)

lemma holdings_process_date:
  "holdings_snapshots (process_date txs st d) =
     holdings_snapshots st @ day_holdings d (positions (process_date txs st d))"
  by (simp add: process_date_eq Let_def)

lemma portfolios_process_date:
  "portfolio_snapshots (process_date txs st d) =
     portfolio_snapshots st @
       (let hs = day_holdings d (positions (process_date txs st d)) in
        if hs \<noteq> [] then [make_portfolio d (sum_list (map h_market_value hs))
                             (sum_list (map h_cost_basis hs))] else [])"
  by (simp add: process_date_eq Let_def)

lemma p_snapshot_date_make_portfolio [simp]:
  "p_snapshot_date (make_portfolio d tmv tcb) = d"
  by (simp add: make_portfolio_def Let_def)

lemma holdings_on_process_date:
  assumes "\<forall>h \<in> set (holdings_snapshots st). h_snapshot_date h \<in> D" and "d \<notin> D"
  shows "holdings_on (process_date txs st d) x =
           (if x = d then day_holdings d (positions (process_date txs st d))
            else holdings_on st x)"
proof -
  let ?hs = "day_holdings d (positions (process_date txs st d))"
  have new: "filter (\<lambda>h. h_snapshot_date h = x) ?hs = (if x = d then ?hs else [])"
    by (auto simp add: filter_empty_conv day_holdings_date)
  have old: "filter (\<lambda>h. h_snapshot_date h = d) (holdings_snapshots st) = []"
    using assms by (auto simp add: filter_empty_conv)
  show ?thesis
    unfolding holdings_on_def holdings_process_date filter_append new
    using old by simp
qed

lemma portfolios_on_process_date:
  assumes "\<forall>ps \<in> set (portfolio_snapshots st). p_snapshot_date ps \<in> D" and "d \<notin> D"
  shows "portfolios_on (process_date txs st d) x =
           (if x = d then
              (let hs = day_holdings d (positions (process_date txs st d)) in
               if hs \<noteq> [] then [make_portfolio d (sum_list (map h_market_value hs))
                                    (sum_list (map h_cost_basis hs))] else [])
            else portfolios_on st x)"
proof -
  have old: "filter (\<lambda>ps. p_snapshot_date ps = d) (portfolio_snapshots st) = []"
    using assms by (auto simp add: filter_empty_conv)
  show ?thesis
    unfolding portfolios_on_def portfolios_process_date filter_append
    using old by (simp add: Let_def)
qed

lemma run_inv_step:
  assumes inv: "run_inv D st" and new: "d \<notin> D"
  shows "run_inv (insert d D) (process_date txs st d)"
proof -
  let ?st = "process_date txs st d"
  let ?hs = "day_holdings d (positions ?st)"
  have hD: "\<forall>h \<in> set (holdings_snapshots st). h_snapshot_date h \<in> D"
    and pD: "\<forall>ps \<in> set (portfolio_snapshots st). p_snapshot_date ps \<in> D"
    using inv by (auto simp add: run_inv_def)
  note hon = holdings_on_process_date [OF hD new]
  note pon = portfolios_on_process_date [OF pD new]
  have pos: "\<forall>(k, p) \<in> set (positions ?st). position_ok p"
    unfolding positions_process_date
    using inv by (intro positions_ok_foldl) (simp add: run_inv_def)
  have holds: "h_snapshot_date h \<in> insert d D \<and> 0 \<le> h_cost_basis h \<and>
      length (portfolios_on ?st (h_snapshot_date h)) = 1"
    if "h \<in> set (holdings_snapshots ?st)" for h
  proof (cases "h \<in> set (holdings_snapshots st)")
    case True
    then have "h_snapshot_date h \<in> D" "0 \<le> h_cost_basis h"
      "length (portfolios_on st (h_snapshot_date h)) = 1"
      using inv by (auto simp add: run_inv_def)
    moreover from this new have "h_snapshot_date h \<noteq> d"
      by auto
    ultimately show ?thesis
      by (simp add: pon)
  next
    case False
    then have mem: "h \<in> set ?hs"
      using that by (subst (asm) holdings_process_date) simp
    then have date: "h_snapshot_date h = d"
      by (rule day_holdings_date)
    obtain k p c where "(k, p) \<in> set (positions ?st)" and h: "h = make_holding d p c"
      using mem by (auto simp add: day_holdings_iff)
    then have "position_ok p"
      using pos by auto
    then have "0 \<le> h_cost_basis h"
      by (simp add: h position_ok_def)
    moreover have "?hs \<noteq> []"
      using mem by auto
    ultimately show ?thesis
      by (simp add: date pon Let_def)
  qed
  have ports: "p_snapshot_date ps \<in> insert d D \<and> holdings_on ?st (p_snapshot_date ps) \<noteq> [] \<and>
        ps = make_portfolio (p_snapshot_date ps)
               (sum_list (map h_market_value (holdings_on ?st (p_snapshot_date ps))))
               (sum_list (map h_cost_basis (holdings_on ?st (p_snapshot_date ps))))"
    if "ps \<in> set (portfolio_snapshots ?st)" for ps
  proof (cases "ps \<in> set (portfolio_snapshots st)")
    case True
    then have old: "p_snapshot_date ps \<in> D" "holdings_on st (p_snapshot_date ps) \<noteq> []"
      "ps = make_portfolio (p_snapshot_date ps)
               (sum_list (map h_market_value (holdings_on st (p_snapshot_date ps))))
               (sum_list (map h_cost_basis (holdings_on st (p_snapshot_date ps))))"
      using inv by (auto simp add: run_inv_def)
    moreover from old(1) new have "p_snapshot_date ps \<noteq> d"
      by auto
    ultimately show ?thesis
      by (simp add: hon)
  next
    case False
    then have "?hs \<noteq> [] \<and>
        ps = make_portfolio d (sum_list (map h_market_value ?hs)) (sum_list (map h_cost_basis ?hs))"
      using that by (subst (asm) portfolios_process_date) (auto simp add: Let_def split: if_splits)
    then show ?thesis
      by (simp add: hon)
  qed
  show ?thesis
    unfolding run_inv_def using pos holds ports by blast
qed

lemma run_inv_foldl:
  assumes "run_inv D st" and "distinct ds" and "set ds \<inter> D = {}"
  shows "run_inv (D \<union> set ds) (foldl (process_date txs) st ds)"
  using assms
proof (induction ds arbitrary: D st)
  case Nil
  then show ?case by simp
next
  case (Cons d ds)
  have "run_inv (insert d D) (process_date txs st d)"
    using Cons.prems by (intro run_inv_step) auto
  moreover have "distinct ds" "set ds \<inter> insert d D = {}"
    using Cons.prems by auto
  ultimately have "run_inv (insert d D \<union> set ds) (foldl (process_date txs) (process_date txs st d) ds)"
    by (rule Cons.IH)
  then show ?case
    by simp
qed

lemma run_inv_generate:
  assumes "distinct ds"
  shows "run_inv (set ds) (generate_snapshots txs ds)"
proof -
  have "run_inv {} \<lparr>positions = [], portfolio_snapshots = [], holdings_snapshots = []\<rparr>"
    by (simp add: run_inv_def)
  from run_inv_foldl [OF this assms] show ?thesis
    by (simp add: generate_snapshots_def)
qed


section \<open>The range of dates is without repetition\<close>

lemma all_dates_loop_acc_all:
  "\<forall>acc. all_dates_loop c e acc = acc @ all_dates_loop c e []"
proof (induction c e "dummy :: string list" rule: all_dates_loop.induct)
  case (1 current end_date all_dates)
  show ?case
  proof (cases "datetime_le current end_date")
    case True
    from "1.IH" [OF True] have
      IH: "\<And>acc. all_dates_loop (add_one_day current) end_date acc =
              acc @ all_dates_loop (add_one_day current) end_date []"
      by blast
    show ?thesis
    proof
      fix acc
      have "all_dates_loop current end_date acc =
          all_dates_loop (add_one_day current) end_date (acc @ [strftime current])"
        using True by (subst all_dates_loop.simps) simp
      also have "\<dots> = acc @ [strftime current] @ all_dates_loop (add_one_day current) end_date []"
        by (subst IH) simp
      also have "[strftime current] @ all_dates_loop (add_one_day current) end_date [] =
          all_dates_loop current end_date []"
        using True by (subst (2) all_dates_loop.simps) (simp add: IH [of "[strftime current]"])
      finally show "all_dates_loop current end_date acc = acc @ all_dates_loop current end_date []" .
    qed
  next
    case False
    then show ?thesis
      by (simp add: all_dates_loop.simps)
  qed
qed

lemma all_dates_loop_unfold:
  "all_dates_loop c e [] =
     (if datetime_le c e then strftime c # all_dates_loop (add_one_day c) e [] else [])"
proof -
  have "all_dates_loop (add_one_day c) e [strftime c]
      = [strftime c] @ all_dates_loop (add_one_day c) e []"
    using all_dates_loop_acc_all by blast
  then show ?thesis
    by (subst all_dates_loop.simps) simp
qed

lemma valid_small: "valid_datetime t \<Longrightarrow> small_datetime t"
  by (cases t) (auto simp add: days_in_month_def split: if_splits)

lemma small_add_one_day: "small_datetime t \<Longrightarrow> small_datetime (add_one_day t)"
  by (cases t) (auto simp add: days_in_month_def split: if_splits)

lemma datetime_le_trans: "datetime_le a b \<Longrightarrow> datetime_le b c \<Longrightarrow> datetime_le a c"
  by (cases a; cases b; cases c) auto

lemma add_one_day_later: "datetime_le (add_one_day c) t \<Longrightarrow> t \<noteq> c \<and> datetime_le c t"
  by (cases c; cases t) (auto split: if_splits)

lemma all_dates_loop_mem:
  "small_datetime c \<Longrightarrow> x \<in> set (all_dates_loop c e []) \<Longrightarrow>
     \<exists>t. x = strftime t \<and> datetime_le c t \<and> datetime_le t e \<and> small_datetime t"
proof (induction c e "dummy :: string list" rule: all_dates_loop.induct)
  case (1 current end_date all_dates)
  show ?case
  proof (cases "datetime_le current end_date")
    case True
    then consider "x = strftime current" | "x \<in> set (all_dates_loop (add_one_day current) end_date [])"
      using "1.prems"(2) by (subst (asm) all_dates_loop_unfold) auto
    then show ?thesis
    proof cases
      case 1
      moreover have "datetime_le current current"
        by (cases current) auto
      ultimately show ?thesis
        using True "1.prems"(1) by blast
    next
      case 2
      from "1.IH" [OF True small_add_one_day [OF "1.prems"(1)] 2]
      obtain t where "x = strftime t" "datetime_le (add_one_day current) t"
        "datetime_le t end_date" "small_datetime t"
        by blast
      then show ?thesis
        using add_one_day_later by blast
    qed
  next
    case False
    then show ?thesis
      using "1.prems"(2) by (subst (asm) all_dates_loop_unfold) simp
  qed
qed


lemma digit_eq: "digit a = digit b \<longleftrightarrow> a mod 10 = b mod 10"
proof -
  have "distinct ''0123456789''"
    by simp
  moreover have "a mod 10 < length ''0123456789''" "b mod 10 < length ''0123456789''"
    by simp_all
  ultimately show ?thesis
    unfolding digit_def by (rule nth_eq_iff_index_eq)
qed

lemma small_div: "a < 10 * k \<Longrightarrow> (a div 10) mod k = a div 10" for a k :: nat
  by (simp add: less_mult_imp_div_less mult.commute)

lemma digits2_inj:
  assumes "digits2 a = digits2 b" and "a < 100" and "b < 100"
  shows "a = b"
proof -
  have "(a div 10) mod 10 = (b div 10) mod 10" and m: "a mod 10 = b mod 10"
    using assms(1) by (simp_all add: digits2_def digit_eq)
  then have "a div 10 = b div 10"
    using assms(2,3) by (simp add: small_div)
  then show ?thesis
    using m by (metis div_mult_mod_eq)
qed

lemma digits4_inj:
  assumes "digits4 a = digits4 b" and "a < 10000" and "b < 10000"
  shows "a = b"
proof -
  have e: "(a div 1000) mod 10 = (b div 1000) mod 10" "(a div 100) mod 10 = (b div 100) mod 10"
    "(a div 10) mod 10 = (b div 10) mod 10" "a mod 10 = b mod 10"
    using assms(1) by (simp_all add: digits4_def digit_eq)
  have "a div 1000 < 10" "b div 1000 < 10"
    using assms(2,3) by simp_all
  then have "a div 1000 = b div 1000"
    using e(1) by simp
  moreover have "a div 1000 = a div 100 div 10" "b div 1000 = b div 100 div 10"
    by (simp_all add: div_mult2_eq [symmetric])
  ultimately have "a div 100 = b div 100"
    using e(2) by (metis div_mult_mod_eq)
  moreover have "a div 100 = a div 10 div 10" "b div 100 = b div 10 div 10"
    by (simp_all add: div_mult2_eq [symmetric])
  ultimately have "a div 10 = b div 10"
    using e(3) by (metis div_mult_mod_eq)
  then show ?thesis
    using e(4) by (metis div_mult_mod_eq)
qed
lemma strftime_inj:
  assumes "strftime s = strftime t"
    and "small_datetime s" and "small_datetime t"
    and "fst s < 10000" and "fst t < 10000"
  shows "s = t"
proof -
  obtain y m d where s: "s = (y, m, d)"
    by (cases s)
  obtain y' m' d' where t: "t = (y', m', d')"
    by (cases t)
  have "digits4 y = digits4 y'" and "digits2 m = digits2 m'" and "digits2 d = digits2 d'"
    using assms(1) by (simp_all add: s t digits4_def digits2_def)
  moreover have "m < 100" "m' < 100" "d < 100" "d' < 100"
    using assms(2,3) by (simp_all add: s t)
  ultimately show ?thesis
    using assms(4,5) by (auto simp add: s t dest: digits4_inj digits2_inj)
qed

lemma datetime_le_year: "datetime_le s t \<Longrightarrow> fst s \<le> fst t"
  by (cases s; cases t) auto

lemma distinct_all_dates_loop:
  "small_datetime c \<Longrightarrow> fst e < 10000 \<Longrightarrow> distinct (all_dates_loop c e [])"
proof (induction c e "dummy :: string list" rule: all_dates_loop.induct)
  case (1 current end_date all_dates)
  show ?case
  proof (cases "datetime_le current end_date")
    case True
    have next_small: "small_datetime (add_one_day current)"
      using "1.prems"(1) by (rule small_add_one_day)
    have "strftime current \<notin> set (all_dates_loop (add_one_day current) end_date [])"
    proof
      assume "strftime current \<in> set (all_dates_loop (add_one_day current) end_date [])"
      with next_small obtain t where t: "strftime current = strftime t"
        "datetime_le (add_one_day current) t" "datetime_le t end_date" "small_datetime t"
        using all_dates_loop_mem by blast
      have "fst t < 10000" "fst current < 10000"
        using t(3) True "1.prems"(2) by (auto dest: datetime_le_year)
      then have "current = t"
        using t(1,4) "1.prems"(1) by (intro strftime_inj)
      then show False
        using t(2) add_one_day_later by blast
    qed
    moreover have "distinct (all_dates_loop (add_one_day current) end_date [])"
      using True next_small "1.prems"(2) by (rule "1.IH")
    ultimately show ?thesis
      using True by (subst all_dates_loop_unfold) simp
  next
    case False
    then show ?thesis
      by (subst all_dates_loop_unfold) simp
  qed
qed

lemma run_inv_main_loop:
  assumes "valid_datetime start_date"
  shows "run_inv (set (all_dates_loop start_date end_date [])) (main_loop txs start_date)"
proof -
  have "distinct (all_dates_loop start_date end_date [])"
    using assms by (intro distinct_all_dates_loop valid_small) (simp_all add: end_date_def)
  then show ?thesis
    unfolding main_loop_def by (rule run_inv_generate)
qed


section \<open>Missing prices\<close>

lemma day_holdings_value_positions: "fst (value_positions d ps [] 0 0) = day_holdings d ps"
  by (simp add: value_positions_eq)

lemma keys_process_tx: "k \<in> fst ` set ps \<Longrightarrow> k \<in> fst ` set (process_tx ps tx)"
  by (simp add: process_tx_eq dom_update)

lemma keys_foldl_process_tx:
  "k \<in> fst ` set ps \<Longrightarrow> k \<in> fst ` set (foldl process_tx ps txs)"
  by (induction txs arbitrary: ps) (simp_all add: keys_process_tx)

lemma map_of_foldl_other_keys:
  "\<forall>tx \<in> set txs. position_key tx \<noteq> k \<Longrightarrow> map_of (foldl process_tx ps txs) k = map_of ps k"
  by (induction txs arbitrary: ps) (simp_all add: map_of_process_tx_other)

text \<open>
  Claim C6. The lookup is a total function: it returns \<open>None\<close> exactly when the name is
  not in the alias table or the table of its ticker has no price for the date. The
  valuation of a date changes no position: the positions after the iteration of a date are
  those after the date's transactions. A position whose lookup returns \<open>None\<close> on a date gets
  no row in that date's holdings; its key stays in the dictionary on every later date, its
  entry is the same after a date without a transaction for its key, and on any date on
  which it has at least 0.0001 shares and a price it gets its row.
\<close>

theorem C6_missing_price_skips:
  "(get_closing_price name d = None \<longleftrightarrow>
      map_of FUND_TICKER_MAP name = None
      \<or> (\<exists>ticker. map_of FUND_TICKER_MAP name = Some ticker \<and> table_price ticker d = None))
   \<and> positions (process_date txs st d) = foldl process_tx (positions st) (tx_by_date txs d)
   \<and> holdings_snapshots (process_date txs st d)
       = holdings_snapshots st @ fst (value_positions d (positions (process_date txs st d)) [] 0 0)
   \<and> ((k, p) \<in> set (positions (process_date txs st d)) \<and> get_closing_price (fund p) d = None \<longrightarrow>
        (\<forall>h \<in> set (fst (value_positions d (positions (process_date txs st d)) [] 0 0)).
           h_fund h \<noteq> fund p))
   \<and> (k \<in> fst ` set (positions st) \<longrightarrow> k \<in> fst ` set (positions (process_date txs st d)))
   \<and> ((\<forall>tx \<in> set (tx_by_date txs d). position_key tx \<noteq> k) \<longrightarrow>
        map_of (positions (process_date txs st d)) k = map_of (positions st) k)
   \<and> ((k, p) \<in> set (positions (process_date txs st d)) \<and> \<not> \<bar>shares p\<bar> < 0.0001
        \<and> get_closing_price (fund p) d = Some c \<longrightarrow>
        make_holding d p c \<in> set (holdings_snapshots (process_date txs st d)))"
proof -
  let ?st = "process_date txs st d"
  have "get_closing_price name d = None \<longleftrightarrow>
      map_of FUND_TICKER_MAP name = None
      \<or> (\<exists>ticker. map_of FUND_TICKER_MAP name = Some ticker \<and> table_price ticker d = None)"
    by (auto simp add: get_closing_price_eq split: option.splits)
  moreover have "positions ?st = foldl process_tx (positions st) (tx_by_date txs d)"
    by (rule positions_process_date)
  moreover have "holdings_snapshots ?st
       = holdings_snapshots st @ fst (value_positions d (positions ?st) [] 0 0)"
    unfolding day_holdings_value_positions by (rule holdings_process_date)
  moreover have "\<forall>h \<in> set (fst (value_positions d (positions ?st) [] 0 0)). h_fund h \<noteq> fund p"
    if "(k, p) \<in> set (positions ?st) \<and> get_closing_price (fund p) d = None"
    using that unfolding day_holdings_value_positions by (auto simp add: day_holdings_iff)
  moreover have "k \<in> fst ` set (positions ?st)" if "k \<in> fst ` set (positions st)"
    unfolding positions_process_date using that by (rule keys_foldl_process_tx)
  moreover have "map_of (positions ?st) k = map_of (positions st) k"
    if "\<forall>tx \<in> set (tx_by_date txs d). position_key tx \<noteq> k"
    unfolding positions_process_date using that by (rule map_of_foldl_other_keys)
  moreover have "make_holding d p c \<in> set (holdings_snapshots ?st)"
    if "(k, p) \<in> set (positions ?st) \<and> \<not> \<bar>shares p\<bar> < 0.0001
        \<and> get_closing_price (fund p) d = Some c"
  proof -
    have "make_holding d p c \<in> set (day_holdings d (positions ?st))"
      using that by (auto simp add: day_holdings_iff)
    then show ?thesis
      by (subst holdings_process_date) simp
  qed
  ultimately show ?thesis
    by blast
qed

text \<open>
  A purchase on Friday 2025-09-05, no price on Saturday 2025-09-06, and the price of
  Monday 2025-09-08.
\<close>

theorem C6_missing_price_skips_witness:
  "get_closing_price ''VTI'' ''2025-09-06'' = None
   \<and> map_of FUND_TICKER_MAP ''VTI'' = Some ''VTI''
   \<and> table_price ''VTI'' ''2025-09-06'' = None
   \<and> (''VTI||Brokerage'', \<lparr>fund = ''VTI'', account = ''Brokerage'', shares = 10, cost_basis = 3000\<rparr>)
       \<in> set (positions (process_date
      [\<lparr>tx_date = ''2025-09-05'', tx_fund = ''VTI'', tx_money_source = ''Brokerage'',
       tx_activity = ''Buy'', tx_units = 10, tx_unit_price = 300, tx_amount = - 3000\<rparr>]
      (generate_snapshots
      [\<lparr>tx_date = ''2025-09-05'', tx_fund = ''VTI'', tx_money_source = ''Brokerage'',
       tx_activity = ''Buy'', tx_units = 10, tx_unit_price = 300, tx_amount = - 3000\<rparr>]
      [''2025-09-05''])
      ''2025-09-06''))
   \<and> holdings_snapshots (process_date
      [\<lparr>tx_date = ''2025-09-05'', tx_fund = ''VTI'', tx_money_source = ''Brokerage'',
       tx_activity = ''Buy'', tx_units = 10, tx_unit_price = 300, tx_amount = - 3000\<rparr>]
      (generate_snapshots
      [\<lparr>tx_date = ''2025-09-05'', tx_fund = ''VTI'', tx_money_source = ''Brokerage'',
       tx_activity = ''Buy'', tx_units = 10, tx_unit_price = 300, tx_amount = - 3000\<rparr>]
      [''2025-09-05''])
      ''2025-09-06'')
       = holdings_snapshots (generate_snapshots
      [\<lparr>tx_date = ''2025-09-05'', tx_fund = ''VTI'', tx_money_source = ''Brokerage'',
       tx_activity = ''Buy'', tx_units = 10, tx_unit_price = 300, tx_amount = - 3000\<rparr>]
      [''2025-09-05''])
   \<and> map_of (positions (process_date
      [\<lparr>tx_date = ''2025-09-05'', tx_fund = ''VTI'', tx_money_source = ''Brokerage'',
       tx_activity = ''Buy'', tx_units = 10, tx_unit_price = 300, tx_amount = - 3000\<rparr>]
      (generate_snapshots
      [\<lparr>tx_date = ''2025-09-05'', tx_fund = ''VTI'', tx_money_source = ''Brokerage'',
       tx_activity = ''Buy'', tx_units = 10, tx_unit_price = 300, tx_amount = - 3000\<rparr>]
      [''2025-09-05''])
      ''2025-09-06'')) ''VTI||Brokerage''
       = map_of (positions (generate_snapshots
      [\<lparr>tx_date = ''2025-09-05'', tx_fund = ''VTI'', tx_money_source = ''Brokerage'',
       tx_activity = ''Buy'', tx_units = 10, tx_unit_price = 300, tx_amount = - 3000\<rparr>]
      [''2025-09-05''])) ''VTI||Brokerage''
   \<and> get_closing_price ''VTI'' ''2025-09-08'' = Some 320.57
   \<and> make_holding ''2025-09-08'' \<lparr>fund = ''VTI'', account = ''Brokerage'', shares = 10, cost_basis = 3000\<rparr> 320.57
       \<in> set (holdings_snapshots (process_date
      [\<lparr>tx_date = ''2025-09-05'', tx_fund = ''VTI'', tx_money_source = ''Brokerage'',
       tx_activity = ''Buy'', tx_units = 10, tx_unit_price = 300, tx_amount = - 3000\<rparr>]
      (process_date
      [\<lparr>tx_date = ''2025-09-05'', tx_fund = ''VTI'', tx_money_source = ''Brokerage'',
       tx_activity = ''Buy'', tx_units = 10, tx_unit_price = 300, tx_amount = - 3000\<rparr>]
      (generate_snapshots
      [\<lparr>tx_date = ''2025-09-05'', tx_fund = ''VTI'', tx_money_source = ''Brokerage'',
       tx_activity = ''Buy'', tx_units = 10, tx_unit_price = 300, tx_amount = - 3000\<rparr>]
      [''2025-09-05''])
      ''2025-09-06'')
      ''2025-09-08''))"
proof -
  let ?buy = "[\<lparr>tx_date = ''2025-09-05'', tx_fund = ''VTI'', tx_money_source = ''Brokerage'',
       tx_activity = ''Buy'', tx_units = 10, tx_unit_price = 300, tx_amount = - 3000\<rparr>]"
  let ?p = "\<lparr>fund = ''VTI'', account = ''Brokerage'', shares = 10, cost_basis = 3000\<rparr>"
  let ?st = "generate_snapshots ?buy [''2025-09-05'']"
  let ?sat = "process_date ?buy ?st ''2025-09-06''"
  let ?mon = "process_date ?buy ?sat ''2025-09-08''"
  have ticker: "map_of FUND_TICKER_MAP ''VTI'' = Some ''VTI''"
    by (simp add: FUND_TICKER_MAP_def)
  have saturday: "table_price ''VTI'' ''2025-09-06'' = None"
    by (simp add: table_price_def HISTORICAL_PRICES_def)
  have monday: "get_closing_price ''VTI'' ''2025-09-08'' = Some 320.57"
    by (simp add: get_closing_price_eq ticker table_price_def HISTORICAL_PRICES_def)
  have "positions ?st = foldl process_tx [] ?buy"
    by (simp add: generate_snapshots_def positions_process_date tx_by_date_def)
  moreover have "foldl process_tx [] ?buy = [(''VTI||Brokerage'', ?p)]"
    by (simp add: process_tx_def position_key_def new_position_def update_position_def)
  ultimately have st: "positions ?st = [(''VTI||Brokerage'', ?p)]"
    by (rule trans)
  have no_tx: "tx_by_date ?buy ''2025-09-06'' = []" "tx_by_date ?buy ''2025-09-08'' = []"
    by (simp_all add: tx_by_date_def)
  have sat: "positions ?sat = [(''VTI||Brokerage'', ?p)]"
    by (simp add: positions_process_date no_tx st)
  have mon: "positions ?mon = [(''VTI||Brokerage'', ?p)]"
    by (simp add: positions_process_date no_tx st)
  have held: "(''VTI||Brokerage'', ?p) \<in> set (positions ?sat)"
    by (simp add: sat)
  have held': "(''VTI||Brokerage'', ?p) \<in> set (positions ?mon)"
    by (simp add: mon)
  note saturday_facts =
    C6_missing_price_skips [of "''VTI''" "''2025-09-06''" ?buy ?st "''VTI||Brokerage''" ?p]
  note monday_facts =
    C6_missing_price_skips [of _ "''2025-09-08''" ?buy ?sat "''VTI||Brokerage''" ?p "320.57"]
  have none: "get_closing_price ''VTI'' ''2025-09-06'' = None"
    using saturday_facts ticker saturday by blast
  then have "get_closing_price (fund ?p) ''2025-09-06'' = None"
    by simp
  with saturday_facts held have
    "\<forall>h \<in> set (fst (value_positions ''2025-09-06'' (positions ?sat) [] 0 0)). h_fund h \<noteq> fund ?p"
    by blast
  moreover have "\<forall>h \<in> set (fst (value_positions ''2025-09-06'' (positions ?sat) [] 0 0)).
      h_fund h = fund ?p"
    unfolding day_holdings_value_positions by (auto simp add: sat split: option.splits)
  ultimately have "fst (value_positions ''2025-09-06'' (positions ?sat) [] 0 0) = []"
    by (cases "fst (value_positions ''2025-09-06'' (positions ?sat) [] 0 0)") auto
  with saturday_facts have same_rows: "holdings_snapshots ?sat = holdings_snapshots ?st"
    by simp
  have "\<forall>tx \<in> set (tx_by_date ?buy ''2025-09-06''). position_key tx \<noteq> ''VTI||Brokerage''"
    by (simp add: no_tx)
  with saturday_facts have same_entry:
    "map_of (positions ?sat) ''VTI||Brokerage'' = map_of (positions ?st) ''VTI||Brokerage''"
    by blast
  have "\<not> \<bar>shares ?p\<bar> < 0.0001" and "get_closing_price (fund ?p) ''2025-09-08'' = Some 320.57"
    using monday by simp_all
  with monday_facts held' have valued:
    "make_holding ''2025-09-08'' ?p 320.57 \<in> set (holdings_snapshots ?mon)"
    by blast
  from none ticker saturday held same_rows same_entry monday valued show ?thesis
    by blast
qed

section \<open>Portfolio rows\<close>

text \<open>The rounding is to the nearest multiple of \<open>10\<^sup>-\<^sup>n\<close>.\<close>

lemma py_round_near: "\<bar>py_round x n - x\<bar> \<le> 1 / (2 * 10 ^ n)"
proof -
  have pos: "(0::rat) < 10 ^ n"
    by simp
  have "py_round x n - x = (of_int (round_half_even (x * 10 ^ n)) - x * 10 ^ n) / 10 ^ n"
    by (simp add: py_round_def diff_divide_distrib)
  then have "\<bar>py_round x n - x\<bar> = \<bar>of_int (round_half_even (x * 10 ^ n)) - x * 10 ^ n\<bar> / 10 ^ n"
    by (simp add: abs_divide)
  also have "\<dots> \<le> (1 / 2) / 10 ^ n"
    using round_half_even_near pos by (intro divide_right_mono) simp_all
  finally show ?thesis
    by simp
qed

lemma py_round_decimal: "\<exists>k :: int. py_round x n = of_int k / 10 ^ n"
  by (auto simp add: py_round_def)

lemma run_portfolio_row:
  assumes "valid_datetime start_date"
    and "ps \<in> set (portfolio_snapshots (main_loop txs start_date))"
  shows "holdings_on (main_loop txs start_date) (p_snapshot_date ps) \<noteq> []"
    and "ps = make_portfolio (p_snapshot_date ps)
          (sum_list (map h_market_value (holdings_on (main_loop txs start_date) (p_snapshot_date ps))))
          (sum_list (map h_cost_basis (holdings_on (main_loop txs start_date) (p_snapshot_date ps))))"
  using run_inv_main_loop [OF assms(1), of txs] assms(2) by (auto simp add: run_inv_def)

lemma run_holding_row:
  assumes "valid_datetime start_date"
    and "h \<in> set (holdings_snapshots (main_loop txs start_date))"
  shows "0 \<le> h_cost_basis h"
    and "length (portfolios_on (main_loop txs start_date) (h_snapshot_date h)) = 1"
  using run_inv_main_loop [OF assms(1), of txs] assms(2) by (auto simp add: run_inv_def)

lemma make_portfolio_simps:
  "total_market_value (make_portfolio d tmv tcb) = py_round tmv 2"
  "total_cost_basis (make_portfolio d tmv tcb) = py_round tcb 2"
  "total_gain_loss (make_portfolio d tmv tcb) = py_round (tmv - tcb) 2"
  "total_gain_loss_percent (make_portfolio d tmv tcb) =
     py_round (if 0 < tcb then (tmv - tcb) / tcb * 100 else 0) 4"
  by (simp_all add: make_portfolio_def Let_def)

lemma py_round_zero: "py_round 0 n = 0"
  by (simp add: py_round_def round_half_even_def)

text \<open>Two runs of one day, 2025-10-28, with one purchase each.\<close>

lemma example_run:
  "main_loop
     [\<lparr>tx_date = ''2025-10-28'', tx_fund = ''VTI'', tx_money_source = ''Brokerage'',
       tx_activity = ''Buy'', tx_units = 0.25, tx_unit_price = 320, tx_amount = - 80\<rparr>]
     (2025, 10, 28)
   = \<lparr>positions =
        [(''VTI||Brokerage'',
          \<lparr>fund = ''VTI'', account = ''Brokerage'', shares = 0.25, cost_basis = 80\<rparr>)],
      portfolio_snapshots =
        [\<lparr>p_snapshot_date = ''2025-10-28'', total_market_value = 84.63,
          total_cost_basis = 80, total_gain_loss = 4.63, total_gain_loss_percent = 5.7844,
          snapshot_source = ''backfill'', market_status = ''closed''\<rparr>],
      holdings_snapshots =
        [\<lparr>h_snapshot_date = ''2025-10-28'', h_fund = ''VTI'', h_account_name = ''Brokerage'',
          h_shares = 0.25, h_unit_price = 338.51, h_market_value = 84.6275,
          h_cost_basis = 80, h_gain_loss = 4.6275, h_price_source = ''historical''\<rparr>]\<rparr>"
  by code_simp

lemma example_run_free:
  "main_loop
     [\<lparr>tx_date = ''2025-10-28'', tx_fund = ''VTI'', tx_money_source = ''Brokerage'',
       tx_activity = ''Grant'', tx_units = 1, tx_unit_price = 0, tx_amount = 0\<rparr>]
     (2025, 10, 28)
   = \<lparr>positions =
        [(''VTI||Brokerage'',
          \<lparr>fund = ''VTI'', account = ''Brokerage'', shares = 1, cost_basis = 0\<rparr>)],
      portfolio_snapshots =
        [\<lparr>p_snapshot_date = ''2025-10-28'', total_market_value = 338.51,
          total_cost_basis = 0, total_gain_loss = 338.51, total_gain_loss_percent = 0,
          snapshot_source = ''backfill'', market_status = ''closed''\<rparr>],
      holdings_snapshots =
        [\<lparr>h_snapshot_date = ''2025-10-28'', h_fund = ''VTI'', h_account_name = ''Brokerage'',
          h_shares = 1, h_unit_price = 338.51, h_market_value = 338.51,
          h_cost_basis = 0, h_gain_loss = 338.51, h_price_source = ''historical''\<rparr>]\<rparr>"
  by code_simp

lemma example_start: "valid_datetime (2025, 10, 28)"
  by (simp add: days_in_month_def)

text \<open>
  Claim C7, as amended. In the output of a run, the \<open>total_market_value\<close> of every
  portfolio row is the sum of the \<open>market_value\<close> of the holding rows of its date, rounded
  to 2 decimal places; a date without holding rows has no portfolio row; and the date of
  every holding row has exactly one portfolio row.
\<close>

theorem C7_aggregation:
  assumes "valid_datetime start_date"
  shows "(\<forall>ps \<in> set (portfolio_snapshots (main_loop txs start_date)).
            total_market_value ps =
              py_round (sum_list (map h_market_value
                (holdings_on (main_loop txs start_date) (p_snapshot_date ps)))) 2)
       \<and> (\<forall>date. holdings_on (main_loop txs start_date) date = [] \<longrightarrow>
             portfolios_on (main_loop txs start_date) date = [])
       \<and> (\<forall>h \<in> set (holdings_snapshots (main_loop txs start_date)).
             length (portfolios_on (main_loop txs start_date) (h_snapshot_date h)) = 1)"
proof (intro conjI ballI allI impI)
  fix ps
  assume "ps \<in> set (portfolio_snapshots (main_loop txs start_date))"
  from run_portfolio_row(2) [OF assms this]
  show "total_market_value ps =
          py_round (sum_list (map h_market_value
            (holdings_on (main_loop txs start_date) (p_snapshot_date ps)))) 2"
    by (metis make_portfolio_simps(1))
next
  fix date
  assume none: "holdings_on (main_loop txs start_date) date = []"
  show "portfolios_on (main_loop txs start_date) date = []"
  proof (rule ccontr)
    assume "portfolios_on (main_loop txs start_date) date \<noteq> []"
    then obtain ps where "ps \<in> set (portfolio_snapshots (main_loop txs start_date))"
      and "p_snapshot_date ps = date"
      by (auto simp add: portfolios_on_def filter_empty_conv)
    then show False
      using run_portfolio_row(1) [OF assms] none by blast
  qed
next
  fix h
  assume "h \<in> set (holdings_snapshots (main_loop txs start_date))"
  with assms show "length (portfolios_on (main_loop txs start_date) (h_snapshot_date h)) = 1"
    by (rule run_holding_row(2))
qed

theorem C7_aggregation_witness:
  "valid_datetime (2025, 10, 28)
   \<and> total_market_value
        \<lparr>p_snapshot_date = ''2025-10-28'', total_market_value = 84.63,
          total_cost_basis = 80, total_gain_loss = 4.63, total_gain_loss_percent = 5.7844,
          snapshot_source = ''backfill'', market_status = ''closed''\<rparr>
      = py_round (sum_list (map h_market_value
          (holdings_on
             (main_loop
                [\<lparr>tx_date = ''2025-10-28'', tx_fund = ''VTI'', tx_money_source = ''Brokerage'',
                  tx_activity = ''Buy'', tx_units = 0.25, tx_unit_price = 320,
                  tx_amount = - 80\<rparr>]
                (2025, 10, 28))
             ''2025-10-28''))) 2
   \<and> holdings_on
        (main_loop
           [\<lparr>tx_date = ''2025-10-28'', tx_fund = ''VTI'', tx_money_source = ''Brokerage'',
             tx_activity = ''Buy'', tx_units = 0.25, tx_unit_price = 320, tx_amount = - 80\<rparr>]
           (2025, 10, 28))
        ''2025-10-27'' = []
   \<and> portfolios_on
        (main_loop
           [\<lparr>tx_date = ''2025-10-28'', tx_fund = ''VTI'', tx_money_source = ''Brokerage'',
             tx_activity = ''Buy'', tx_units = 0.25, tx_unit_price = 320, tx_amount = - 80\<rparr>]
           (2025, 10, 28))
        ''2025-10-27'' = []
   \<and> length (portfolios_on
        (main_loop
           [\<lparr>tx_date = ''2025-10-28'', tx_fund = ''VTI'', tx_money_source = ''Brokerage'',
             tx_activity = ''Buy'', tx_units = 0.25, tx_unit_price = 320, tx_amount = - 80\<rparr>]
           (2025, 10, 28))
        ''2025-10-28'') = 1"
proof -
  let ?txs = "[\<lparr>tx_date = ''2025-10-28'', tx_fund = ''VTI'', tx_money_source = ''Brokerage'',
       tx_activity = ''Buy'', tx_units = 0.25, tx_unit_price = 320, tx_amount = - 80\<rparr>]"
  let ?row = "\<lparr>p_snapshot_date = ''2025-10-28'', total_market_value = 84.63,
          total_cost_basis = 80, total_gain_loss = 4.63, total_gain_loss_percent = 5.7844,
          snapshot_source = ''backfill'', market_status = ''closed''\<rparr>"
  let ?holding = "\<lparr>h_snapshot_date = ''2025-10-28'', h_fund = ''VTI'',
          h_account_name = ''Brokerage'', h_shares = 0.25, h_unit_price = 338.51,
          h_market_value = 84.6275, h_cost_basis = 80, h_gain_loss = 4.6275,
          h_price_source = ''historical''\<rparr>"
  let ?out = "main_loop ?txs (2025, 10, 28)"
  have row: "?row \<in> set (portfolio_snapshots ?out)"
    unfolding example_run by simp
  have holding: "?holding \<in> set (holdings_snapshots ?out)"
    unfolding example_run by simp
  have none: "holdings_on ?out ''2025-10-27'' = []"
    unfolding example_run by (simp add: holdings_on_def)
  have row_date: "p_snapshot_date ?row = ''2025-10-28''"
    and holding_date: "h_snapshot_date ?holding = ''2025-10-28''"
    by simp_all
  note all = C7_aggregation [OF example_start, of ?txs]
  from all row have "total_market_value ?row =
      py_round (sum_list (map h_market_value (holdings_on ?out (p_snapshot_date ?row)))) 2"
    by blast
  then have total: "total_market_value ?row =
      py_round (sum_list (map h_market_value (holdings_on ?out ''2025-10-28''))) 2"
    unfolding row_date .
  from all none have no_row: "portfolios_on ?out ''2025-10-27'' = []"
    by blast
  from all holding have "length (portfolios_on ?out (h_snapshot_date ?holding)) = 1"
    by blast
  then have one: "length (portfolios_on ?out ''2025-10-28'') = 1"
    unfolding holding_date .
  from example_start total none no_row one show ?thesis
    by blast
qed

text \<open>
  The claim as it was stated, without the rounding: a quarter of a share at 338.51 has the
  market value 84.6275 in its holding row, and the portfolio row of the date has the
  total market value 84.63.
\<close>

theorem C7_aggregation_counterexample:
  "length (portfolio_snapshots
      (main_loop
         [\<lparr>tx_date = ''2025-10-28'', tx_fund = ''VTI'', tx_money_source = ''Brokerage'',
           tx_activity = ''Buy'', tx_units = 0.25, tx_unit_price = 320, tx_amount = - 80\<rparr>]
         (2025, 10, 28))) = 1
   \<and> total_market_value (hd (portfolio_snapshots
      (main_loop
         [\<lparr>tx_date = ''2025-10-28'', tx_fund = ''VTI'', tx_money_source = ''Brokerage'',
           tx_activity = ''Buy'', tx_units = 0.25, tx_unit_price = 320, tx_amount = - 80\<rparr>]
         (2025, 10, 28)))) = 84.63
   \<and> sum_list (map h_market_value (holdings_on
      (main_loop
         [\<lparr>tx_date = ''2025-10-28'', tx_fund = ''VTI'', tx_money_source = ''Brokerage'',
           tx_activity = ''Buy'', tx_units = 0.25, tx_unit_price = 320, tx_amount = - 80\<rparr>]
         (2025, 10, 28))
      (p_snapshot_date (hd (portfolio_snapshots
        (main_loop
           [\<lparr>tx_date = ''2025-10-28'', tx_fund = ''VTI'', tx_money_source = ''Brokerage'',
             tx_activity = ''Buy'', tx_units = 0.25, tx_unit_price = 320, tx_amount = - 80\<rparr>]
           (2025, 10, 28))))))) = 84.6275
   \<and> (84.63 :: rat) \<noteq> 84.6275"
  unfolding example_run by (simp add: holdings_on_def)

text \<open>
  Claim C8. For every portfolio row of a run, with the totals of market value and of cost
  basis over the holding rows of its date: \<open>total_market_value\<close>, \<open>total_cost_basis\<close> and
  \<open>total_gain_loss\<close> are the totals and their difference rounded to 2 decimal places;
  \<open>total_gain_loss_percent\<close> is gain/loss divided by the total cost basis, times 100,
  rounded to 4 decimal places when the total cost basis is strictly positive, and 0 when it
  is 0. The total cost basis is never negative, so these are all the cases.
\<close>

theorem C8_portfolio_rounding:
  assumes "valid_datetime start_date"
    and "ps \<in> set (portfolio_snapshots (main_loop txs start_date))"
    and "tmv = sum_list (map h_market_value
           (holdings_on (main_loop txs start_date) (p_snapshot_date ps)))"
    and "tcb = sum_list (map h_cost_basis
           (holdings_on (main_loop txs start_date) (p_snapshot_date ps)))"
  shows "total_market_value ps = py_round tmv 2
       \<and> total_cost_basis ps = py_round tcb 2
       \<and> total_gain_loss ps = py_round (tmv - tcb) 2
       \<and> (0 < tcb \<longrightarrow> total_gain_loss_percent ps = py_round ((tmv - tcb) / tcb * 100) 4)
       \<and> (tcb = 0 \<longrightarrow> total_gain_loss_percent ps = 0)
       \<and> 0 \<le> tcb"
proof -
  have row: "ps = make_portfolio (p_snapshot_date ps) tmv tcb"
    unfolding assms(3,4) using assms(1,2) by (rule run_portfolio_row(2))
  have "0 \<le> h_cost_basis h"
    if "h \<in> set (holdings_on (main_loop txs start_date) (p_snapshot_date ps))" for h
    using that run_holding_row(1) [OF assms(1), of h txs] by (simp add: holdings_on_def)
  then have "0 \<le> tcb"
    unfolding assms(4) by (intro sum_list_nonneg) auto
  moreover have "total_market_value ps = py_round tmv 2" "total_cost_basis ps = py_round tcb 2"
    "total_gain_loss ps = py_round (tmv - tcb) 2"
    "total_gain_loss_percent ps = py_round (if 0 < tcb then (tmv - tcb) / tcb * 100 else 0) 4"
    by (subst row, simp add: make_portfolio_simps)+
  ultimately show ?thesis
    by (simp add: py_round_zero)
qed

theorem C8_portfolio_rounding_witness:
  "valid_datetime (2025, 10, 28)
   \<and> total_market_value
        \<lparr>p_snapshot_date = ''2025-10-28'', total_market_value = 84.63,
          total_cost_basis = 80, total_gain_loss = 4.63, total_gain_loss_percent = 5.7844,
          snapshot_source = ''backfill'', market_status = ''closed''\<rparr> = py_round 84.6275 2
   \<and> total_cost_basis
        \<lparr>p_snapshot_date = ''2025-10-28'', total_market_value = 84.63,
          total_cost_basis = 80, total_gain_loss = 4.63, total_gain_loss_percent = 5.7844,
          snapshot_source = ''backfill'', market_status = ''closed''\<rparr> = py_round 80 2
   \<and> total_gain_loss
        \<lparr>p_snapshot_date = ''2025-10-28'', total_market_value = 84.63,
          total_cost_basis = 80, total_gain_loss = 4.63, total_gain_loss_percent = 5.7844,
          snapshot_source = ''backfill'', market_status = ''closed''\<rparr> = py_round (84.6275 - 80) 2
   \<and> (0 :: rat) < 80
   \<and> total_gain_loss_percent
        \<lparr>p_snapshot_date = ''2025-10-28'', total_market_value = 84.63,
          total_cost_basis = 80, total_gain_loss = 4.63, total_gain_loss_percent = 5.7844,
          snapshot_source = ''backfill'', market_status = ''closed''\<rparr>
       = py_round ((84.6275 - 80) / 80 * 100) 4
   \<and> total_gain_loss_percent
        \<lparr>p_snapshot_date = ''2025-10-28'', total_market_value = 338.51,
          total_cost_basis = 0, total_gain_loss = 338.51, total_gain_loss_percent = 0,
          snapshot_source = ''backfill'', market_status = ''closed''\<rparr> = 0"
proof -
  let ?buy = "[\<lparr>tx_date = ''2025-10-28'', tx_fund = ''VTI'', tx_money_source = ''Brokerage'',
       tx_activity = ''Buy'', tx_units = 0.25, tx_unit_price = 320, tx_amount = - 80\<rparr>]"
  let ?grant = "[\<lparr>tx_date = ''2025-10-28'', tx_fund = ''VTI'', tx_money_source = ''Brokerage'',
       tx_activity = ''Grant'', tx_units = 1, tx_unit_price = 0, tx_amount = 0\<rparr>]"
  let ?row = "\<lparr>p_snapshot_date = ''2025-10-28'', total_market_value = 84.63,
          total_cost_basis = 80, total_gain_loss = 4.63, total_gain_loss_percent = 5.7844,
          snapshot_source = ''backfill'', market_status = ''closed''\<rparr>"
  let ?free = "\<lparr>p_snapshot_date = ''2025-10-28'', total_market_value = 338.51,
          total_cost_basis = 0, total_gain_loss = 338.51, total_gain_loss_percent = 0,
          snapshot_source = ''backfill'', market_status = ''closed''\<rparr>"
  have row: "?row \<in> set (portfolio_snapshots (main_loop ?buy (2025, 10, 28)))"
    unfolding example_run by simp
  have tmv: "84.6275 = sum_list (map h_market_value
      (holdings_on (main_loop ?buy (2025, 10, 28)) (p_snapshot_date ?row)))"
    unfolding example_run by (simp add: holdings_on_def)
  have tcb: "80 = sum_list (map h_cost_basis
      (holdings_on (main_loop ?buy (2025, 10, 28)) (p_snapshot_date ?row)))"
    unfolding example_run by (simp add: holdings_on_def)
  have free: "?free \<in> set (portfolio_snapshots (main_loop ?grant (2025, 10, 28)))"
    unfolding example_run_free by simp
  have tmv0: "338.51 = sum_list (map h_market_value
      (holdings_on (main_loop ?grant (2025, 10, 28)) (p_snapshot_date ?free)))"
    unfolding example_run_free by (simp add: holdings_on_def)
  have tcb0: "0 = sum_list (map h_cost_basis
      (holdings_on (main_loop ?grant (2025, 10, 28)) (p_snapshot_date ?free)))"
    unfolding example_run_free by (simp add: holdings_on_def)
  from C8_portfolio_rounding [OF example_start row tmv tcb]
    C8_portfolio_rounding [OF example_start free tmv0 tcb0]
  show ?thesis
    using example_start by simp
qed

end
